theory Spec2Isabelle
  imports Main "HOL-Library.Word"
begin

section \<open>The monitor bootstrap of pkg/operator/mon/mon.go\<close>

text \<open>
  The file starts the Ceph monitors of a cluster on Kubernetes: \<open>Start\<close> reads or creates
  the cluster secrets (\<open>initClusterInfo\<close>, \<open>createMonSecretsAndSave\<close>), then creates one
  pod per monitor and waits for each to run (\<open>startPods\<close>, \<open>waitForPodToStart\<close>).

  Every call that leaves the package (the Kubernetes clientset, the monitor package, the
  helpers of the package that live in other files) is a field of a record of collaborators.
  A collaborator takes the state of the outside world, of an arbitrary type \<open>'w\<close>, and
  returns its answer with the new world, so the theorems hold for every behaviour of the
  API server. The model also keeps the list of the calls it has issued, in order.
\<close>

subsection \<open>Constants\<close>

definition appName :: string where "appName = ''mon''"
definition monNodeAttr :: string where "monNodeAttr = ''mon_node''"
definition monClusterAttr :: string where "monClusterAttr = ''mon_cluster''"
definition tprName :: string where "tprName = ''mon.rook.io''"
definition fsidSecretName :: string where "fsidSecretName = ''fsid''"
definition monSecretName :: string where "monSecretName = ''mon-secret''"
definition adminSecretName :: string where "adminSecretName = ''admin-secret''"
definition clusterSecretName :: string where "clusterSecretName = ''cluster-name''"

subsection \<open>Data\<close>

text \<open>The struct \<open>Cluster\<close>; its field \<open>factory\<close> is only handed to
  \<open>mon.CreateClusterInfo\<close>, which is a collaborator below.\<close>

record Cluster =
  Namespace :: string
  Keyring :: string
  ClusterName :: string
  Version :: string
  MasterHost :: string
  Size :: int
  Paused :: bool
  AntiAffinity :: bool
  Port :: "32 word"

text \<open>The struct \<open>MonConfig\<close>.\<close>

record MonConfig =
  MonName :: string
  MonPort :: "32 word"

text \<open>\<open>mon.ClusterInfo\<close>, with the five fields the file reads and writes. The values of
  the monitor map are what \<open>mon.ToCephMon\<close> returns, of a type \<open>'m\<close>.\<close>

record 'm ClusterInfo =
  Name :: string
  FSID :: string
  MonitorSecret :: string
  AdminSecret :: string
  Monitors :: "string \<rightharpoonup> 'm"

text \<open>\<open>v1.Secret\<close>: the name of its \<open>ObjectMeta\<close>, \<open>Data\<close> (read back from the API
  server), \<open>StringData\<close> (written on create) and \<open>Type\<close>. A Go map is a partial function.\<close>

record Secret =
  SecretName :: string
  Data :: "string \<rightharpoonup> string"
  StringData :: "string \<rightharpoonup> string"
  SecretType :: string

text \<open>\<open>v1.Pod\<close>: the three fields the file reads, \<open>Name\<close>, \<open>Status.Phase\<close> and
  \<open>Status.PodIP\<close>. \<open>v1.PodPhase\<close> is a string type.\<close>

record Pod =
  PodName :: string
  Phase :: string
  PodIP :: string

definition PodPending :: string where "PodPending = ''Pending''"
definition PodRunning :: string where "PodRunning = ''Running''"

subsection \<open>Errors\<close>

text \<open>Modelled from the spec: the errors of the collaborators and their classification by
  \<open>k8sutil.IsKubernetesResourceNotFoundError\<close> and
  \<open>k8sutil.IsKubernetesResourceAlreadyExistError\<close>, which are not in this file. The resource
  store "must expose distinguishable NotFound and AlreadyExists outcomes on get/create";
  every other failure carries its message.\<close>

datatype api_error = NotFound | AlreadyExists | OtherFailure string

definition IsKubernetesResourceNotFoundError :: "api_error \<Rightarrow> bool" where
  "IsKubernetesResourceNotFoundError err = (err = NotFound)"

definition IsKubernetesResourceAlreadyExistError :: "api_error \<Rightarrow> bool" where
  "IsKubernetesResourceAlreadyExistError err = (err = AlreadyExists)"

text \<open>The errors of the file itself: one constructor for each \<open>fmt.Errorf\<close>, with the
  values it formats.\<close>

datatype error =
    FailedInitClusterInfo error
  | FailedStartMonPods error
  | FailedGetMonSecrets api_error
  | FailedCreateMonSecrets api_error
  | FailedSaveMonSecrets api_error
  | FailedSaveRookAdminSecret api_error
  | FailedGetAntiAffinity error
  | FailedGetMonPods api_error
  | FailedCreateMonPod string api_error
  | FailedStartPod string error
  | FailedGetMonPod string api_error
  | TimedOutWaitingForPod string
  | FailedGetNodes api_error

subsection \<open>Collaborators, calls and state\<close>

text \<open>The calls that leave the file, as they are recorded. The first argument of a call on
  secrets or pods is the namespace.\<close>

datatype call =
    SecretsGetCall string string
  | SecretsCreateCall string Secret
  | CreateClusterInfoCall
  | NodesListCall
  | PollPodsCall string string
  | PodsCreateCall string Pod
  | PodsGetCall string string
  | SleepCall nat

text \<open>
  The collaborators.
  \<^item> \<open>SecretsGet\<close>, \<open>SecretsCreate\<close>, \<open>PodsCreate\<close>, \<open>PodsGet\<close>, \<open>NodesList\<close>: the
    clientset. \<open>PodsGet\<close> returns the pod it allocates together with the error, as
    client-go does; the file reads the name of that pod on the error path. \<open>NodesList\<close>
    returns the number of items of the list.
  \<^item> \<open>After\<close>: \<open>time.After\<close>, in seconds; time passing may change the world.
  \<^item> \<open>CreateClusterInfo\<close>, \<open>ToCephMon\<close>, \<open>MonitorPort\<close>: \<open>mon.CreateClusterInfo\<close> (called
    with the factory of the cluster and an empty name), \<open>mon.ToCephMon\<close> and \<open>mon.Port\<close>
    converted to int32.
  \<^item> \<open>pollPods\<close>, \<open>makeMonPod\<close>: the two methods of \<open>Cluster\<close> that live in another file;
    \<open>pollPods\<close> returns the running and the pending pods.
  \<^item> \<open>RookType\<close>, \<open>RbdType\<close>: the secret types of \<open>k8sutil\<close>.
\<close>

record ('w, 'm) Collaborators =
  SecretsGet :: "string \<Rightarrow> string \<Rightarrow> 'w \<Rightarrow> (api_error + Secret) \<times> 'w"
  SecretsCreate :: "string \<Rightarrow> Secret \<Rightarrow> 'w \<Rightarrow> api_error option \<times> 'w"
  PodsCreate :: "string \<Rightarrow> Pod \<Rightarrow> 'w \<Rightarrow> api_error option \<times> 'w"
  PodsGet :: "string \<Rightarrow> string \<Rightarrow> 'w \<Rightarrow> (Pod \<times> api_error option) \<times> 'w"
  NodesList :: "'w \<Rightarrow> (api_error + nat) \<times> 'w"
  After :: "nat \<Rightarrow> 'w \<Rightarrow> 'w"
  CreateClusterInfo :: "'w \<Rightarrow> (api_error + 'm ClusterInfo) \<times> 'w"
  ToCephMon :: "string \<Rightarrow> string \<Rightarrow> 'm"
  MonitorPort :: "32 word"
  pollPods :: "Cluster \<Rightarrow> string \<Rightarrow> 'w \<Rightarrow> (api_error + Pod list \<times> Pod list) \<times> 'w"
  makeMonPod :: "Cluster \<Rightarrow> MonConfig \<Rightarrow> 'm ClusterInfo \<Rightarrow> bool \<Rightarrow> Pod"
  RookType :: string
  RbdType :: string

text \<open>The state: the outside world and the calls issued so far, oldest first.\<close>

record 'w state =
  world :: 'w
  calls :: "call list"

definition issue :: "call \<Rightarrow> ('w \<Rightarrow> 'a \<times> 'w) \<Rightarrow> 'w state \<Rightarrow> 'a \<times> 'w state" where
  "issue c f st =
     (case f (world st) of (r, w) \<Rightarrow> (r, \<lparr>world = w, calls = calls st @ [c]\<rparr>))"

definition secretsGet ::
  "('w, 'm) Collaborators \<Rightarrow> string \<Rightarrow> string \<Rightarrow> 'w state \<Rightarrow> (api_error + Secret) \<times> 'w state" where
  "secretsGet env ns name = issue (SecretsGetCall ns name) (SecretsGet env ns name)"

definition secretsCreate ::
  "('w, 'm) Collaborators \<Rightarrow> string \<Rightarrow> Secret \<Rightarrow> 'w state \<Rightarrow> api_error option \<times> 'w state" where
  "secretsCreate env ns secret = issue (SecretsCreateCall ns secret) (SecretsCreate env ns secret)"

definition podsCreate ::
  "('w, 'm) Collaborators \<Rightarrow> string \<Rightarrow> Pod \<Rightarrow> 'w state \<Rightarrow> api_error option \<times> 'w state" where
  "podsCreate env ns pod = issue (PodsCreateCall ns pod) (PodsCreate env ns pod)"

definition podsGet ::
  "('w, 'm) Collaborators \<Rightarrow> string \<Rightarrow> string \<Rightarrow> 'w state \<Rightarrow> (Pod \<times> api_error option) \<times> 'w state" where
  "podsGet env ns name = issue (PodsGetCall ns name) (PodsGet env ns name)"

definition nodesList ::
  "('w, 'm) Collaborators \<Rightarrow> 'w state \<Rightarrow> (api_error + nat) \<times> 'w state" where
  "nodesList env = issue NodesListCall (NodesList env)"

definition after :: "('w, 'm) Collaborators \<Rightarrow> nat \<Rightarrow> 'w state \<Rightarrow> 'w state" where
  "after env d st = \<lparr>world = After env d (world st), calls = calls st @ [SleepCall d]\<rparr>"

definition createClusterInfo ::
  "('w, 'm) Collaborators \<Rightarrow> 'w state \<Rightarrow> (api_error + 'm ClusterInfo) \<times> 'w state" where
  "createClusterInfo env = issue CreateClusterInfoCall (CreateClusterInfo env)"

definition pollPodsCall ::
  "('w, 'm) Collaborators \<Rightarrow> Cluster \<Rightarrow> string \<Rightarrow> 'w state
     \<Rightarrow> (api_error + Pod list \<times> Pod list) \<times> 'w state" where
  "pollPodsCall env c clusterName =
     issue (PollPodsCall (Namespace c) clusterName) (pollPods env c clusterName)"

subsection \<open>New\<close>

text \<open>The constructor: three monitors, anti-affinity on, the zero value in the other
  fields. The factory goes to the collaborators.\<close>

definition New :: "string \<Rightarrow> string \<Rightarrow> Cluster" where
  "New namespace version =
     \<lparr>Namespace = namespace, Keyring = [], ClusterName = [], Version = version,
      MasterHost = [], Size = 3, Paused = False, AntiAffinity = True, Port = 0\<rparr>"

subsection \<open>initClusterInfo and createMonSecretsAndSave\<close>

text \<open>Reading a key of a Go map of byte slices and converting to string: an absent key
  gives the nil slice, and \<open>string(nil)\<close> is the empty string.\<close>

definition field :: "(string \<rightharpoonup> string) \<Rightarrow> string \<Rightarrow> string" where
  "field m k = (case m k of None \<Rightarrow> [] | Some v \<Rightarrow> v)"

definition createMonSecretsAndSave ::
  "('w, 'm) Collaborators \<Rightarrow> Cluster \<Rightarrow> 'w state \<Rightarrow> (error + 'm ClusterInfo) \<times> 'w state" where
  "createMonSecretsAndSave env c st =
     (case createClusterInfo env st of
        (Inl err, st1) \<Rightarrow> (Inl (FailedCreateMonSecrets err), st1)
      | (Inr info, st1) \<Rightarrow>
          (let secrets = [clusterSecretName \<mapsto> Name info, fsidSecretName \<mapsto> FSID info,
                          monSecretName \<mapsto> MonitorSecret info,
                          adminSecretName \<mapsto> AdminSecret info];
               secret = \<lparr>SecretName = appName, Data = Map.empty, StringData = secrets,
                         SecretType = RookType env\<rparr>
           in case secretsCreate env (Namespace c) secret st1 of
                (Some err, st2) \<Rightarrow> (Inl (FailedSaveMonSecrets err), st2)
              | (None, st2) \<Rightarrow>
                  (let storageClassSecret = [''key'' \<mapsto> AdminSecret info];
                       secret' = \<lparr>SecretName = ''rook-admin'', Data = Map.empty,
                                  StringData = storageClassSecret, SecretType = RbdType env\<rparr>
                   in case secretsCreate env (Namespace c) secret' st2 of
                        (Some err, st3) \<Rightarrow>
                          (if \<not> IsKubernetesResourceAlreadyExistError err
                           then (Inl (FailedSaveRookAdminSecret err), st3)
                           else (Inr info, st3))
                      | (None, st3) \<Rightarrow> (Inr info, st3))))"

definition initClusterInfo ::
  "('w, 'm) Collaborators \<Rightarrow> Cluster \<Rightarrow> 'w state \<Rightarrow> (error + 'm ClusterInfo) \<times> 'w state" where
  "initClusterInfo env c st =
     (case secretsGet env (Namespace c) appName st of
        (Inl err, st1) \<Rightarrow>
          (if \<not> IsKubernetesResourceNotFoundError err
           then (Inl (FailedGetMonSecrets err), st1)
           else createMonSecretsAndSave env c st1)
      | (Inr secrets, st1) \<Rightarrow>
          (Inr \<lparr>Name = field (Data secrets) clusterSecretName,
                FSID = field (Data secrets) fsidSecretName,
                MonitorSecret = field (Data secrets) monSecretName,
                AdminSecret = field (Data secrets) adminSecretName,
                Monitors = Map.empty\<rparr>, st1))"

subsection \<open>waitForPodToStart\<close>

text \<open>The loop \<open>for i := 0; i < 15; i++\<close>, entered at \<open>i\<close>. The pod fetched inside the loop
  shadows the parameter only after the call, so every fetch asks for the name of the
  parameter, the error of a failed fetch names the fetched pod, and the timeout names the
  parameter.\<close>

function waitLoop ::
  "('w, 'm) Collaborators \<Rightarrow> Cluster \<Rightarrow> Pod \<Rightarrow> nat \<Rightarrow> 'w state \<Rightarrow> (error + string) \<times> 'w state" where
  "waitLoop env c pod i st =
     (if i < 15 then
        (let delay = 6; st1 = after env delay st
         in case podsGet env (Namespace c) (PodName pod) st1 of
              ((pod', Some err), st2) \<Rightarrow> (Inl (FailedGetMonPod (PodName pod') err), st2)
            | ((pod', None), st2) \<Rightarrow>
                (if Phase pod' = PodRunning then (Inr (PodIP pod'), st2)
                 else waitLoop env c pod (i + 1) st2))
      else (Inl (TimedOutWaitingForPod (PodName pod)), st))"
  by pat_completeness auto
termination
  by (relation "measure (\<lambda>(env, c, pod, i, st). 15 - i)") auto

declare waitLoop.simps [simp del]

definition waitForPodToStart ::
  "('w, 'm) Collaborators \<Rightarrow> Cluster \<Rightarrow> Pod \<Rightarrow> 'w state \<Rightarrow> (error + string) \<times> 'w state" where
  "waitForPodToStart env c pod st = waitLoop env c pod 0 st"

subsection \<open>getAntiAffinity and startPods\<close>

definition getAntiAffinity ::
  "('w, 'm) Collaborators \<Rightarrow> Cluster \<Rightarrow> 'w state \<Rightarrow> (error + bool) \<times> 'w state" where
  "getAntiAffinity env c st =
     (case nodesList env st of
        (Inl err, st1) \<Rightarrow> (Inl (FailedGetNodes err), st1)
      | (Inr n, st1) \<Rightarrow> (Inr (int n \<ge> Size c), st1))"

text \<open>The loop \<open>for _, m := range running\<close> that fills the monitor map.\<close>

fun recordRunning ::
  "('w, 'm) Collaborators \<Rightarrow> Pod list \<Rightarrow> (string \<rightharpoonup> 'm) \<Rightarrow> (string \<rightharpoonup> 'm)" where
  "recordRunning env [] monitors = monitors"
| "recordRunning env (m # running) monitors =
     recordRunning env running (monitors(PodName m \<mapsto> ToCephMon env (PodName m) (PodIP m)))"

text \<open>The loop \<open>for _, m := range mons\<close>. The cluster info is reached through a pointer, so
  what the loop has written to it is there on the error paths too: the loop returns the
  error, if any, with the cluster info and the two counters \<open>started\<close> and
  \<open>alreadyRunning\<close>.\<close>

fun startLoop ::
  "('w, 'm) Collaborators \<Rightarrow> Cluster \<Rightarrow> bool \<Rightarrow> MonConfig list \<Rightarrow> 'm ClusterInfo \<Rightarrow> nat \<Rightarrow> nat
     \<Rightarrow> 'w state \<Rightarrow> (error option \<times> 'm ClusterInfo \<times> nat \<times> nat) \<times> 'w state" where
  "startLoop env c antiAffinity [] clusterInfo started alreadyRunning st =
     ((None, clusterInfo, started, alreadyRunning), st)"
| "startLoop env c antiAffinity (m # mons) clusterInfo started alreadyRunning st =
     (let monPod = makeMonPod env c m clusterInfo antiAffinity
      in case podsCreate env (Namespace c) monPod st of
           (created, st1) \<Rightarrow>
             (case (case created of
                      Some err \<Rightarrow>
                        (if \<not> IsKubernetesResourceAlreadyExistError err
                         then Inl (FailedCreateMonPod (Namespace c) err)
                         else Inr (started, alreadyRunning + 1))
                    | None \<Rightarrow> Inr (started + 1, alreadyRunning)) of
                Inl err \<Rightarrow> ((Some err, clusterInfo, started, alreadyRunning), st1)
              | Inr (started', alreadyRunning') \<Rightarrow>
                  (case waitForPodToStart env c monPod st1 of
                     (Inl err, st2) \<Rightarrow>
                       ((Some (FailedStartPod (PodName monPod) err), clusterInfo,
                         started', alreadyRunning'), st2)
                   | (Inr podIP, st2) \<Rightarrow>
                       startLoop env c antiAffinity mons
                         (clusterInfo\<lparr>Monitors :=
                            (Monitors clusterInfo)(MonName m \<mapsto> ToCephMon env (MonName m) podIP)\<rparr>)
                         started' alreadyRunning' st2)))"

declare startLoop.simps(2) [simp del]

definition startPods ::
  "('w, 'm) Collaborators \<Rightarrow> Cluster \<Rightarrow> 'm ClusterInfo \<Rightarrow> MonConfig list \<Rightarrow> 'w state
     \<Rightarrow> (error option \<times> 'm ClusterInfo) \<times> 'w state" where
  "startPods env c clusterInfo mons st =
     (case getAntiAffinity env c st of
        (Inl err, st1) \<Rightarrow> ((Some (FailedGetAntiAffinity err), clusterInfo), st1)
      | (Inr antiAffinity, st1) \<Rightarrow>
          (case pollPodsCall env c (Name clusterInfo) st1 of
             (Inl err, st2) \<Rightarrow> ((Some (FailedGetMonPods err), clusterInfo), st2)
           | (Inr (running, pending), st2) \<Rightarrow>
               (let clusterInfo' =
                      clusterInfo\<lparr>Monitors := recordRunning env running Map.empty\<rparr>
                in if int (length running) = Size c then ((None, clusterInfo'), st2)
                   else (case startLoop env c antiAffinity mons clusterInfo' 0 0 st2 of
                           ((err, clusterInfo'', started, alreadyRunning), st3) \<Rightarrow>
                             ((err, clusterInfo''), st3)))))"

subsection \<open>Start\<close>

text \<open>\<open>fmt.Sprintf("%d", i)\<close>: the decimal digits, with a sign for a negative number.\<close>

fun digits :: "nat \<Rightarrow> string" where
  "digits n =
     (if n < 10 then [''0123456789'' ! n]
      else digits (n div 10) @ [''0123456789'' ! (n mod 10)])"

declare digits.simps [simp del]

definition Sprintf_d :: "int \<Rightarrow> string" where
  "Sprintf_d i = (if i < 0 then CHR ''-'' # digits (nat (- i)) else digits (nat i))"

text \<open>The loop \<open>for i := 0; i < c.Size; i++\<close> that builds the monitor configurations.\<close>

definition monConfigs :: "('w, 'm) Collaborators \<Rightarrow> Cluster \<Rightarrow> MonConfig list" where
  "monConfigs env c =
     map (\<lambda>i. \<lparr>MonName = ''mon'' @ Sprintf_d (int i), MonPort = MonitorPort env\<rparr>)
       [0 ..< nat (Size c)]"

definition Start ::
  "('w, 'm) Collaborators \<Rightarrow> Cluster \<Rightarrow> 'w state \<Rightarrow> (error + 'm ClusterInfo) \<times> 'w state" where
  "Start env c st =
     (case initClusterInfo env c st of
        (Inl err, st1) \<Rightarrow> (Inl (FailedInitClusterInfo err), st1)
      | (Inr clusterInfo, st1) \<Rightarrow>
          (case startPods env c clusterInfo (monConfigs env c) st1 of
             ((Some err, clusterInfo'), st2) \<Rightarrow> (Inl (FailedStartMonPods err), st2)
           | ((None, clusterInfo'), st2) \<Rightarrow> (Inr clusterInfo', st2)))"

subsection \<open>GetMonPodsRunning\<close>

definition GetMonPodsRunning ::
  "('w, 'm) Collaborators \<Rightarrow> Cluster \<Rightarrow> string \<Rightarrow> 'w state \<Rightarrow> (error + nat \<times> nat) \<times> 'w state" where
  "GetMonPodsRunning env c clusterName st =
     (case pollPodsCall env c clusterName st of
        (Inl err, st1) \<Rightarrow> (Inl (FailedGetMonPods err), st1)
      | (Inr (running, pending), st1) \<Rightarrow> (Inr (length running, length pending), st1))"

subsection \<open>Notions used in the statements\<close>

text \<open>The calls issued between two states of one run.\<close>

definition issued :: "'w state \<Rightarrow> 'w state \<Rightarrow> call list" where
  "issued before after' = drop (length (calls before)) (calls after')"

text \<open>The calls of \<open>k\<close> attempts of \<open>waitForPodToStart\<close>: a sleep of 6 seconds, then the
  fetch of the pod.\<close>

definition waitCalls :: "string \<Rightarrow> string \<Rightarrow> nat \<Rightarrow> call list" where
  "waitCalls ns name k = concat (replicate k [SleepCall 6, PodsGetCall ns name])"

text \<open>The calls of one round of the loop of \<open>startPods\<close>, for the monitor \<open>m\<close> when the
  cluster info is \<open>info\<close>: the create of its pod, then \<open>k\<close> attempts of the wait for
  that pod.\<close>

definition stepCalls ::
  "('w, 'm) Collaborators \<Rightarrow> Cluster \<Rightarrow> bool \<Rightarrow> MonConfig \<times> 'm ClusterInfo \<times> nat \<Rightarrow> call list" where
  "stepCalls env c antiAffinity =
     (\<lambda>(m, info, k).
        PodsCreateCall (Namespace c) (makeMonPod env c m info antiAffinity)
          # waitCalls (Namespace c) (PodName (makeMonPod env c m info antiAffinity)) k)"

text \<open>One round of the loop as the design describes it (section 4.3 of the spec): create the pod of the monitor;
  a failure other than AlreadyExists ends the run with that failure; otherwise wait for
  that pod; a failed wait ends the run, a successful one records the address under the
  name of the monitor.\<close>

definition oneRound ::
  "('w, 'm) Collaborators \<Rightarrow> Cluster \<Rightarrow> bool \<Rightarrow> MonConfig \<Rightarrow> 'm ClusterInfo \<Rightarrow> 'w state
     \<Rightarrow> (error option \<times> 'm ClusterInfo) \<times> 'w state" where
  "oneRound env c antiAffinity m info st =
     (let pod = makeMonPod env c m info antiAffinity
      in case PodsCreate env (Namespace c) pod (world st) of
           (created, w) \<Rightarrow>
             (let st1 = \<lparr>world = w, calls = calls st @ [PodsCreateCall (Namespace c) pod]\<rparr>;
                  waited =
                    (case waitForPodToStart env c pod st1 of
                       (Inl err, st2) \<Rightarrow> ((Some (FailedStartPod (PodName pod) err), info), st2)
                     | (Inr podIP, st2) \<Rightarrow>
                         ((None, info\<lparr>Monitors :=
                             (Monitors info)(MonName m \<mapsto> ToCephMon env (MonName m) podIP)\<rparr>), st2))
              in case created of
                   None \<Rightarrow> waited
                 | Some err \<Rightarrow>
                     (if err = AlreadyExists then waited
                      else ((Some (FailedCreateMonPod (Namespace c) err), info), st1))))"

text \<open>The world after \<open>j\<close> attempts of \<open>waitForPodToStart\<close> from the world \<open>w\<close>, when
  each of them fetches the pod without error and does not find it running; \<open>None\<close> when
  one of these fetches fails or finds the pod running.\<close>

fun afterPending :: "('w, 'm) Collaborators \<Rightarrow> Cluster \<Rightarrow> Pod \<Rightarrow> nat \<Rightarrow> 'w \<Rightarrow> 'w option" where
  "afterPending env c pod 0 w = Some w"
| "afterPending env c pod (Suc j) w =
     (case PodsGet env (Namespace c) (PodName pod) (After env 6 w) of
        ((p, Some err), w') \<Rightarrow> None
      | ((p, None), w') \<Rightarrow> (if Phase p = PodRunning then None else afterPending env c pod j w'))"

text \<open>The calls that write to the resource store, and the pods of the create calls.\<close>

fun isWrite :: "call \<Rightarrow> bool" where
  "isWrite (SecretsCreateCall ns secret) = True"
| "isWrite (PodsCreateCall ns pod) = True"
| "isWrite other = False"

fun createdPods :: "call list \<Rightarrow> Pod list" where
  "createdPods [] = []"
| "createdPods (PodsCreateCall ns pod # cs) = pod # createdPods cs"
| "createdPods (other # cs) = createdPods cs"

text \<open>An answer to a create call, with AlreadyExists replaced by success.\<close>

definition alreadyExistsAsSuccess :: "api_error option \<times> 'w \<Rightarrow> api_error option \<times> 'w" where
  "alreadyExistsAsSuccess r = (if fst r = Some AlreadyExists then (None, snd r) else r)"

subsection \<open>A small cluster to run the functions on\<close>

text \<open>An empty namespace on three nodes where every create succeeds and every pod runs at
  the first fetch. The examples below change one collaborator at a time.\<close>

definition demoInfo :: "(string \<times> string) ClusterInfo" where
  "demoInfo = \<lparr>Name = ''rookcluster'', FSID = ''f5d0'', MonitorSecret = ''monkey'',
               AdminSecret = ''adminkey'', Monitors = Map.empty\<rparr>"

definition demoEnv :: "(unit, string \<times> string) Collaborators" where
  "demoEnv =
     \<lparr>SecretsGet = (\<lambda>ns name w. (Inl NotFound, w)),
      SecretsCreate = (\<lambda>ns secret w. (None, w)),
      PodsCreate = (\<lambda>ns pod w. (None, w)),
      PodsGet = (\<lambda>ns name w.
        ((\<lparr>PodName = name, Phase = PodRunning, PodIP = ''10.0.0.7''\<rparr>, None), w)),
      NodesList = (\<lambda>w. (Inr 3, w)),
      After = (\<lambda>d w. w),
      CreateClusterInfo = (\<lambda>w. (Inr demoInfo, w)),
      ToCephMon = Pair,
      MonitorPort = 6790,
      pollPods = (\<lambda>c clusterName w. (Inr ([], []), w)),
      makeMonPod = (\<lambda>c m info antiAffinity. \<lparr>PodName = MonName m, Phase = [], PodIP = []\<rparr>),
      RookType = ''kubernetes.io/rook'',
      RbdType = ''kubernetes.io/rbd''\<rparr>"

definition demoCluster :: Cluster where
  "demoCluster = \<lparr>Namespace = ''rook'', Keyring = [], ClusterName = [], Version = ''v0.2'',
     MasterHost = [], Size = 3, Paused = False, AntiAffinity = True, Port = 0\<rparr>"

definition demoPod :: "string \<Rightarrow> Pod" where
  "demoPod name = \<lparr>PodName = name, Phase = [], PodIP = []\<rparr>"

definition st0 :: "unit state" where
  "st0 = \<lparr>world = (), calls = []\<rparr>"

text \<open>The pod never leaves the phase Pending.\<close>

definition pendingEnv :: "(unit, string \<times> string) Collaborators" where
  "pendingEnv = demoEnv\<lparr>PodsGet := (\<lambda>ns name w.
     ((\<lparr>PodName = name, Phase = PodPending, PodIP = []\<rparr>, None), w))\<rparr>"

text \<open>The secret of the monitors is there, with its four fields.\<close>

definition foundEnv :: "(unit, string \<times> string) Collaborators" where
  "foundEnv = demoEnv\<lparr>SecretsGet := (\<lambda>ns name w.
     (Inr \<lparr>SecretName = name,
           Data = [clusterSecretName \<mapsto> ''rookcluster'', fsidSecretName \<mapsto> ''f5d0'',
                   monSecretName \<mapsto> ''monkey'', adminSecretName \<mapsto> ''adminkey''],
           StringData = Map.empty, SecretType = ''kubernetes.io/rook''\<rparr>, w))\<rparr>"

text \<open>The secret of the monitors is there, with none of its fields.\<close>

definition emptySecretEnv :: "(unit, string \<times> string) Collaborators" where
  "emptySecretEnv = demoEnv\<lparr>SecretsGet := (\<lambda>ns name w.
     (Inr \<lparr>SecretName = name, Data = Map.empty, StringData = Map.empty,
           SecretType = ''kubernetes.io/rook''\<rparr>, w))\<rparr>"

text \<open>The world counts the fetches: the pod is Pending at the first two, the third and
  every later fetch fails.\<close>

definition flakyEnv :: "(nat, string \<times> string) Collaborators" where
  "flakyEnv =
     \<lparr>SecretsGet = (\<lambda>ns name w. (Inl NotFound, w)),
      SecretsCreate = (\<lambda>ns secret w. (None, w)),
      PodsCreate = (\<lambda>ns pod w. (None, w)),
      PodsGet = (\<lambda>ns name w.
        if w < 2 then ((\<lparr>PodName = name, Phase = PodPending, PodIP = []\<rparr>, None), w + 1)
        else ((\<lparr>PodName = [], Phase = [], PodIP = []\<rparr>,
               Some (OtherFailure ''connection refused'')), w + 1)),
      NodesList = (\<lambda>w. (Inr 3, w)),
      After = (\<lambda>d w. w),
      CreateClusterInfo = (\<lambda>w. (Inr demoInfo, w)),
      ToCephMon = Pair,
      MonitorPort = 6790,
      pollPods = (\<lambda>c clusterName w. (Inr ([], []), w)),
      makeMonPod = (\<lambda>c m info antiAffinity. \<lparr>PodName = MonName m, Phase = [], PodIP = []\<rparr>),
      RookType = ''kubernetes.io/rook'',
      RbdType = ''kubernetes.io/rbd''\<rparr>"

text \<open>The three monitor configurations of the small cluster.\<close>

definition demoMons :: "MonConfig list" where
  "demoMons = [\<lparr>MonName = ''mon0'', MonPort = 6790\<rparr>, \<lparr>MonName = ''mon1'', MonPort = 6790\<rparr>,
               \<lparr>MonName = ''mon2'', MonPort = 6790\<rparr>]"

text \<open>A cluster info that already holds a monitor.\<close>

definition staleInfo :: "(string \<times> string) ClusterInfo" where
  "staleInfo = demoInfo\<lparr>Monitors := [''mon9'' \<mapsto> (''mon9'', ''10.0.0.9'')]\<rparr>"

text \<open>The pod of mon0 is already running; its create answers AlreadyExists.\<close>

definition partlyRunningEnv :: "(unit, string \<times> string) Collaborators" where
  "partlyRunningEnv = demoEnv
     \<lparr>pollPods := (\<lambda>c clusterName w.
        (Inr ([\<lparr>PodName = ''mon0'', Phase = PodRunning, PodIP = ''10.0.0.7''\<rparr>], []), w)),
      PodsCreate := (\<lambda>ns pod w. (if PodName pod = ''mon0'' then Some AlreadyExists else None, w))\<rparr>"

text \<open>The three pods are already running.\<close>

definition allRunningEnv :: "(unit, string \<times> string) Collaborators" where
  "allRunningEnv = demoEnv
     \<lparr>pollPods := (\<lambda>c clusterName w.
        (Inr ([\<lparr>PodName = ''mon0'', Phase = PodRunning, PodIP = ''10.0.0.7''\<rparr>,
               \<lparr>PodName = ''mon1'', Phase = PodRunning, PodIP = ''10.0.0.8''\<rparr>,
               \<lparr>PodName = ''mon2'', Phase = PodRunning, PodIP = ''10.0.0.9''\<rparr>], []), w))\<rparr>"

text \<open>The secret of the monitors is not found, and its create answers AlreadyExists:
  another operator has created it in between.\<close>

definition raceEnv :: "(unit, string \<times> string) Collaborators" where
  "raceEnv = demoEnv\<lparr>SecretsCreate := (\<lambda>ns secret w.
     (if SecretName secret = ''mon'' then Some AlreadyExists else None, w))\<rparr>"

text \<open>The create of the secret rook-admin and of every pod answers AlreadyExists.\<close>

definition existsEnv :: "(unit, string \<times> string) Collaborators" where
  "existsEnv = demoEnv
     \<lparr>SecretsCreate := (\<lambda>ns secret w.
        (if SecretName secret = ''rook-admin'' then Some AlreadyExists else None, w)),
      PodsCreate := (\<lambda>ns pod w. (Some AlreadyExists, w))\<rparr>"

section \<open>Properties\<close>

subsection \<open>One attempt of the wait loop\<close>

lemma waitLoop_step_failed:
  assumes "i < 15"
    and "PodsGet env (Namespace c) (PodName pod) (After env 6 (world st)) = ((p, Some err), w)"
  shows "waitLoop env c pod i st =
           (Inl (FailedGetMonPod (PodName p) err),
            \<lparr>world = w, calls = calls st @ [SleepCall 6, PodsGetCall (Namespace c) (PodName pod)]\<rparr>)"
  using assms by (subst waitLoop.simps) (simp add: podsGet_def issue_def after_def)

lemma waitLoop_step_running:
  assumes "i < 15"
    and "PodsGet env (Namespace c) (PodName pod) (After env 6 (world st)) = ((p, None), w)"
    and "Phase p = PodRunning"
  shows "waitLoop env c pod i st =
           (Inr (PodIP p),
            \<lparr>world = w, calls = calls st @ [SleepCall 6, PodsGetCall (Namespace c) (PodName pod)]\<rparr>)"
  using assms by (subst waitLoop.simps) (simp add: podsGet_def issue_def after_def)

lemma waitLoop_step_again:
  assumes "i < 15"
    and "PodsGet env (Namespace c) (PodName pod) (After env 6 (world st)) = ((p, None), w)"
    and "Phase p \<noteq> PodRunning"
  shows "waitLoop env c pod i st =
           waitLoop env c pod (i + 1)
            \<lparr>world = w, calls = calls st @ [SleepCall 6, PodsGetCall (Namespace c) (PodName pod)]\<rparr>"
  using assms by (subst waitLoop.simps) (simp add: podsGet_def issue_def after_def)

lemma waitLoop_done:
  "\<not> i < 15 \<Longrightarrow> waitLoop env c pod i st = (Inl (TimedOutWaitingForPod (PodName pod)), st)"
  by (subst waitLoop.simps) simp

subsection \<open>The poll bound\<close>




subsection \<open>The identity that is found\<close>

text \<open>
  C10. When the secret of the monitors is found, \<open>initClusterInfo\<close> returns a cluster info
  whose monitor map is empty, whatever the secret holds.
\<close>

theorem initClusterInfo_found_monitors_empty:
  assumes "SecretsGet env (Namespace c) appName (world st) = (Inr secrets, w)"
  shows "\<exists>info. fst (initClusterInfo env c st) = Inr info \<and> Monitors info = Map.empty"
  using assms by (simp add: initClusterInfo_def secretsGet_def issue_def)

theorem initClusterInfo_found_monitors_empty_witness:
  "SecretsGet foundEnv (Namespace demoCluster) appName (world st0)
     = (Inr \<lparr>SecretName = ''mon'',
           Data = [clusterSecretName \<mapsto> ''rookcluster'', fsidSecretName \<mapsto> ''f5d0'',
                   monSecretName \<mapsto> ''monkey'', adminSecretName \<mapsto> ''adminkey''],
           StringData = Map.empty, SecretType = ''kubernetes.io/rook''\<rparr>, ()) \<and>
   (\<exists>info. fst (initClusterInfo foundEnv demoCluster st0) = Inr info \<and> Monitors info = Map.empty)"
proof -
  have h: "SecretsGet foundEnv (Namespace demoCluster) appName (world st0)
     = (Inr \<lparr>SecretName = ''mon'',
           Data = [clusterSecretName \<mapsto> ''rookcluster'', fsidSecretName \<mapsto> ''f5d0'',
                   monSecretName \<mapsto> ''monkey'', adminSecretName \<mapsto> ''adminkey''],
           StringData = Map.empty, SecretType = ''kubernetes.io/rook''\<rparr>, ())"
    by (simp add: foundEnv_def demoEnv_def appName_def)
  show ?thesis using h initClusterInfo_found_monitors_empty [OF h] by simp
qed

text \<open>
  C5. When the secret of the monitors is found by a first call of \<open>initClusterInfo\<close> and
  the same secret is found again by a second call that follows it, both calls return the
  same cluster info, and the only call the second one issues is the lookup of the secret:
  it writes nothing.
\<close>

theorem initClusterInfo_idempotent:
  assumes first: "SecretsGet env (Namespace c) appName (world st) = (Inr secrets, w)"
    and second: "SecretsGet env (Namespace c) appName w = (Inr secrets, w')"
  shows "fst (initClusterInfo env c (snd (initClusterInfo env c st)))
           = fst (initClusterInfo env c st) \<and>
         (\<exists>info. fst (initClusterInfo env c st) = Inr info) \<and>
         issued (snd (initClusterInfo env c st))
                (snd (initClusterInfo env c (snd (initClusterInfo env c st))))
           = [SecretsGetCall (Namespace c) appName] \<and>
         filter isWrite (issued (snd (initClusterInfo env c st))
                (snd (initClusterInfo env c (snd (initClusterInfo env c st))))) = []"
  using assms by (simp add: initClusterInfo_def secretsGet_def issue_def issued_def)

theorem initClusterInfo_idempotent_witness:
  "fst (initClusterInfo foundEnv demoCluster (snd (initClusterInfo foundEnv demoCluster st0)))
     = fst (initClusterInfo foundEnv demoCluster st0) \<and>
   fst (initClusterInfo foundEnv demoCluster st0) = Inr demoInfo \<and>
   filter isWrite (issued (snd (initClusterInfo foundEnv demoCluster st0))
          (snd (initClusterInfo foundEnv demoCluster (snd (initClusterInfo foundEnv demoCluster st0)))))
     = []"
proof -
  let ?s = "\<lparr>SecretName = ''mon'',
           Data = [clusterSecretName \<mapsto> ''rookcluster'', fsidSecretName \<mapsto> ''f5d0'',
                   monSecretName \<mapsto> ''monkey'', adminSecretName \<mapsto> ''adminkey''],
           StringData = Map.empty, SecretType = ''kubernetes.io/rook''\<rparr>"
  have h1: "SecretsGet foundEnv (Namespace demoCluster) appName (world st0) = (Inr ?s, ())"
    by (simp add: foundEnv_def demoEnv_def appName_def)
  have h2: "SecretsGet foundEnv (Namespace demoCluster) appName () = (Inr ?s, ())"
    by (simp add: foundEnv_def demoEnv_def appName_def)
  have v: "fst (initClusterInfo foundEnv demoCluster st0) = Inr demoInfo"
    by (simp add: initClusterInfo_def secretsGet_def issue_def foundEnv_def demoEnv_def
        demoInfo_def field_def clusterSecretName_def fsidSecretName_def monSecretName_def
        adminSecretName_def)
  show ?thesis using initClusterInfo_idempotent [OF h1 h2] v by simp
qed

text \<open>
  C2, as the claim states it, fails: a secret that is found with none of the four fields
  is not an error. \<open>initClusterInfo\<close> returns a cluster info of four empty strings.
\<close>

theorem found_identity_missing_fields_no_error:
  "fst (initClusterInfo emptySecretEnv demoCluster st0)
     = Inr \<lparr>Name = [], FSID = [], MonitorSecret = [], AdminSecret = [], Monitors = Map.empty\<rparr>"
  by (simp add: initClusterInfo_def secretsGet_def issue_def emptySecretEnv_def demoEnv_def field_def)

text \<open>
  C2, amended. When the secret of the monitors is found, \<open>initClusterInfo\<close> does not
  validate it and cannot fail: it returns the cluster info made of the four fields as they
  are stored, a field that is absent being read as the empty string. Its only call is the
  lookup, so no cluster info is generated and nothing is written.
\<close>

theorem found_identity_read_without_validation:
  assumes "SecretsGet env (Namespace c) appName (world st) = (Inr secrets, w)"
  shows "fst (initClusterInfo env c st)
           = Inr \<lparr>Name = (case Data secrets clusterSecretName of None \<Rightarrow> [] | Some v \<Rightarrow> v),
                  FSID = (case Data secrets fsidSecretName of None \<Rightarrow> [] | Some v \<Rightarrow> v),
                  MonitorSecret = (case Data secrets monSecretName of None \<Rightarrow> [] | Some v \<Rightarrow> v),
                  AdminSecret = (case Data secrets adminSecretName of None \<Rightarrow> [] | Some v \<Rightarrow> v),
                  Monitors = Map.empty\<rparr> \<and>
         issued st (snd (initClusterInfo env c st)) = [SecretsGetCall (Namespace c) appName] \<and>
         CreateClusterInfoCall \<notin> set (issued st (snd (initClusterInfo env c st)))"
  using assms by (simp add: initClusterInfo_def secretsGet_def issue_def issued_def field_def)

theorem found_identity_read_without_validation_witness:
  "fst (initClusterInfo emptySecretEnv demoCluster st0)
     = Inr \<lparr>Name = [], FSID = [], MonitorSecret = [], AdminSecret = [], Monitors = Map.empty\<rparr> \<and>
   issued st0 (snd (initClusterInfo emptySecretEnv demoCluster st0)) = [SecretsGetCall ''rook'' ''mon'']"
proof -
  have h: "SecretsGet emptySecretEnv (Namespace demoCluster) appName (world st0)
     = (Inr \<lparr>SecretName = ''mon'', Data = Map.empty, StringData = Map.empty,
           SecretType = ''kubernetes.io/rook''\<rparr>, ())"
    by (simp add: emptySecretEnv_def demoEnv_def appName_def)
  show ?thesis using found_identity_read_without_validation [OF h]
    by (simp add: demoCluster_def appName_def)
qed

subsection \<open>A fetch that fails\<close>

lemma waitCalls_Suc:
  "waitCalls ns name (Suc k) = waitCalls ns name k @ [SleepCall 6, PodsGetCall ns name]"
proof -
  have "replicate (Suc k) [SleepCall 6, PodsGetCall ns name]
          = replicate k [SleepCall 6, PodsGetCall ns name] @ [[SleepCall 6, PodsGetCall ns name]]"
    by (simp add: replicate_append_same)
  then show ?thesis unfolding waitCalls_def by (simp only: concat_append concat.simps append_Nil2)
qed

lemma waitLoop_after_pending:
  "afterPending env c pod j (world st) = Some w \<Longrightarrow> i + j \<le> 15 \<Longrightarrow>
     waitLoop env c pod i st =
       waitLoop env c pod (i + j)
         \<lparr>world = w, calls = calls st @ waitCalls (Namespace c) (PodName pod) j\<rparr>"
proof (induction j arbitrary: i st)
  case 0
  then show ?case by (cases st) (simp add: waitCalls_def)
next
  case (Suc j)
  then have lt: "i < 15" by simp
  obtain p e w' where
    get: "PodsGet env (Namespace c) (PodName pod) (After env 6 (world st)) = ((p, e), w')"
    by (metis surj_pair)
  from Suc.prems(1) get have e: "e = None" and ph: "Phase p \<noteq> PodRunning"
    and ap: "afterPending env c pod j w' = Some w"
    by (auto split: option.splits if_splits)
  let ?st1 = "\<lparr>world = w', calls = calls st @ [SleepCall 6, PodsGetCall (Namespace c) (PodName pod)]\<rparr>"
  have step: "waitLoop env c pod i st = waitLoop env c pod (i + 1) ?st1"
    using waitLoop_step_again [OF lt get [unfolded e] ph] .
  have "waitLoop env c pod (i + 1) ?st1 =
          waitLoop env c pod (i + 1 + j)
            \<lparr>world = w, calls = calls ?st1 @ waitCalls (Namespace c) (PodName pod) j\<rparr>"
    using Suc.IH [of ?st1 "i + 1"] ap Suc.prems(2) by simp
  moreover have "calls ?st1 @ waitCalls (Namespace c) (PodName pod) j
                   = calls st @ waitCalls (Namespace c) (PodName pod) (Suc j)"
    by (simp add: waitCalls_def)
  ultimately show ?case using step by simp
qed

text \<open>
  C9. Take \<open>waitForPodToStart\<close> from its entry. When its first \<open>j\<close> fetches, for any
  \<open>j\<close> below 15, succeed without finding the pod running and the next fetch fails,
  \<open>waitForPodToStart\<close> returns at once with the error of that fetch: the calls it has
  issued are the \<open>j\<close> rounds before and the sleep and the fetch of the failing attempt,
  nothing after them, and the world is as the failed fetch left it, however many of the 15
  attempts remain.
\<close>

theorem wait_aborts_on_failed_fetch:
  assumes "j < 15"
    and "afterPending env c pod j (world st) = Some w"
    and "PodsGet env (Namespace c) (PodName pod) (After env 6 w) = ((p, Some err), w')"
  shows "waitForPodToStart env c pod st =
           (Inl (FailedGetMonPod (PodName p) err),
            \<lparr>world = w',
             calls = calls st @ waitCalls (Namespace c) (PodName pod) j
                       @ [SleepCall 6, PodsGetCall (Namespace c) (PodName pod)]\<rparr>)"
proof -
  let ?st = "\<lparr>world = w, calls = calls st @ waitCalls (Namespace c) (PodName pod) j\<rparr>"
  have "waitForPodToStart env c pod st = waitLoop env c pod j ?st"
    using waitLoop_after_pending [OF assms(2), of 0] assms(1) by (simp add: waitForPodToStart_def)
  also have "\<dots> = (Inl (FailedGetMonPod (PodName p) err),
            \<lparr>world = w', calls = calls ?st @ [SleepCall 6, PodsGetCall (Namespace c) (PodName pod)]\<rparr>)"
    by (rule waitLoop_step_failed [OF assms(1)]) (simp add: assms(3))
  finally show ?thesis by simp
qed

theorem wait_aborts_on_failed_fetch_witness:
  "(2::nat) < 15 \<and>
   afterPending flakyEnv demoCluster (demoPod ''mon0'') 2 0 = Some 2 \<and>
   waitForPodToStart flakyEnv demoCluster (demoPod ''mon0'') \<lparr>world = 0, calls = []\<rparr>
     = (Inl (FailedGetMonPod [] (OtherFailure ''connection refused'')),
        \<lparr>world = 3,
         calls = [SleepCall 6, PodsGetCall ''rook'' ''mon0'', SleepCall 6, PodsGetCall ''rook'' ''mon0'',
                  SleepCall 6, PodsGetCall ''rook'' ''mon0'']\<rparr>)"
proof -
  have h1: "(2::nat) < 15" by simp
  have h2: "afterPending flakyEnv demoCluster (demoPod ''mon0'')
              2 (world \<lparr>world = 0::nat, calls = []\<rparr>) = Some 2"
    by (simp add: eval_nat_numeral flakyEnv_def PodPending_def PodRunning_def)
  have h3: "PodsGet flakyEnv (Namespace demoCluster) (PodName (demoPod ''mon0'')) (After flakyEnv 6 2)
              = ((\<lparr>PodName = [], Phase = [], PodIP = []\<rparr>,
                  Some (OtherFailure ''connection refused'')), 3)"
    by (simp add: flakyEnv_def)
  show ?thesis
    using h2 wait_aborts_on_failed_fetch [OF h1 h2 h3]
    by (simp add: demoPod_def demoCluster_def waitCalls_def eval_nat_numeral)
qed

subsection \<open>The calls of a wait\<close>

lemma waitLoop_calls:
  "15 - i = n \<Longrightarrow> i \<le> 15 \<Longrightarrow>
     \<exists>k. k \<le> n \<and> (0 < n \<longrightarrow> 1 \<le> k) \<and>
         calls (snd (waitLoop env c pod i st)) = calls st @ waitCalls (Namespace c) (PodName pod) k"
proof (induction n arbitrary: i st)
  case 0
  then have "\<not> i < 15" by simp
  then show ?case by (simp add: waitLoop_done waitCalls_def)
next
  case (Suc n)
  then have lt: "i < 15" by simp
  have n: "15 - (i + 1) = n" "i + 1 \<le> 15" using Suc.prems by simp_all
  obtain p e w where
    get: "PodsGet env (Namespace c) (PodName pod) (After env 6 (world st)) = ((p, e), w)"
    by (metis surj_pair)
  let ?st1 = "\<lparr>world = w, calls = calls st @ [SleepCall 6, PodsGetCall (Namespace c) (PodName pod)]\<rparr>"
  have one: "calls ?st1 = calls st @ waitCalls (Namespace c) (PodName pod) 1"
    by (simp add: waitCalls_def)
  show ?case
  proof (cases e)
    case (Some err)
    with get have "waitLoop env c pod i st = (Inl (FailedGetMonPod (PodName p) err), ?st1)"
      using waitLoop_step_failed [OF lt] by simp
    with one show ?thesis by (intro exI [of _ 1]) simp
  next
    case None
    show ?thesis
    proof (cases "Phase p = PodRunning")
      case True
      with get None have "waitLoop env c pod i st = (Inr (PodIP p), ?st1)"
        using waitLoop_step_running [OF lt] by simp
      with one show ?thesis by (intro exI [of _ 1]) simp
    next
      case False
      with get None have eq: "waitLoop env c pod i st = waitLoop env c pod (i + 1) ?st1"
        using waitLoop_step_again [OF lt] by simp
      from Suc.IH [OF n, of ?st1] obtain k where
        k: "k \<le> n" and
        c: "calls (snd (waitLoop env c pod (i + 1) ?st1))
              = calls ?st1 @ waitCalls (Namespace c) (PodName pod) k" by blast
      have "calls (snd (waitLoop env c pod i st))
              = calls st @ waitCalls (Namespace c) (PodName pod) (Suc k)"
        using c eq by (simp add: waitCalls_def)
      with k show ?thesis by (intro exI [of _ "Suc k"]) simp
    qed
  qed
qed

lemma waitForPodToStart_calls:
  "\<exists>k. 1 \<le> k \<and> k \<le> 15 \<and>
       calls (snd (waitForPodToStart env c pod st))
         = calls st @ waitCalls (Namespace c) (PodName pod) k"
  using waitLoop_calls [of 0 15 env c pod st] by (auto simp: waitForPodToStart_def)

lemma recordRunning_map_of:
  "recordRunning env running monitors =
     monitors ++ map_of (rev (map (\<lambda>m. (PodName m, ToCephMon env (PodName m) (PodIP m))) running))"
  by (induction running arbitrary: monitors) (auto simp: fun_eq_iff map_add_def split: option.splits)

lemma dom_recordRunning:
  "dom (recordRunning env running monitors) = dom monitors \<union> PodName ` set running"
  by (induction running arbitrary: monitors) auto

lemma recordRunning_distinct:
  "distinct (map PodName running) \<Longrightarrow> m \<in> set running \<Longrightarrow>
     recordRunning env running monitors (PodName m) = Some (ToCephMon env (PodName m) (PodIP m))"
proof (induction running arbitrary: monitors)
  case Nil
  then show ?case by simp
next
  case (Cons a running)
  show ?case
  proof (cases "m = a")
    case True
    have "PodName a \<notin> PodName ` set running" using Cons.prems(1) by simp
    then have "recordRunning env running (monitors(PodName a \<mapsto> ToCephMon env (PodName a) (PodIP a))) (PodName a)
      = (monitors(PodName a \<mapsto> ToCephMon env (PodName a) (PodIP a))) (PodName a)"
      by (simp add: recordRunning_map_of map_add_dom_app_simps(3) dom_map_of_conv_image_fst image_image)
    with True show ?thesis by simp
  next
    case False
    with Cons show ?thesis by simp
  qed
qed

subsection \<open>The loop over the monitors\<close>

lemma startLoop_create_fatal:
  assumes "PodsCreate env (Namespace c) (makeMonPod env c m ci aa) (world st) = (Some err, w)"
    and "err \<noteq> AlreadyExists"
  shows "startLoop env c aa (m # mons) ci s a st =
           ((Some (FailedCreateMonPod (Namespace c) err), ci, s, a),
            \<lparr>world = w, calls = calls st @ [PodsCreateCall (Namespace c) (makeMonPod env c m ci aa)]\<rparr>)"
  using assms
  by (simp add: startLoop.simps(2) podsCreate_def issue_def
      IsKubernetesResourceAlreadyExistError_def)

lemma startLoop_create_tolerated:
  assumes "PodsCreate env (Namespace c) (makeMonPod env c m ci aa) (world st) = (created, w)"
    and "created = None \<or> created = Some AlreadyExists"
  shows "startLoop env c aa (m # mons) ci s a st =
           (case waitForPodToStart env c (makeMonPod env c m ci aa)
                   \<lparr>world = w,
                    calls = calls st @ [PodsCreateCall (Namespace c) (makeMonPod env c m ci aa)]\<rparr> of
              (Inl err, st2) \<Rightarrow>
                ((Some (FailedStartPod (PodName (makeMonPod env c m ci aa)) err), ci,
                  (if created = None then s + 1 else s),
                  (if created = None then a else a + 1)), st2)
            | (Inr podIP, st2) \<Rightarrow>
                startLoop env c aa mons
                  (ci\<lparr>Monitors := (Monitors ci)(MonName m \<mapsto> ToCephMon env (MonName m) podIP)\<rparr>)
                  (if created = None then s + 1 else s)
                  (if created = None then a else a + 1) st2)"
  using assms
  by (auto simp: startLoop.simps(2) podsCreate_def issue_def
      IsKubernetesResourceAlreadyExistError_def Let_def split: prod.splits sum.splits)

lemma startLoop_calls:
  "\<exists>infos ks. length infos = length ks \<and> length ks \<le> length mons \<and> (mons \<noteq> [] \<longrightarrow> ks \<noteq> []) \<and>
     (fst (fst (startLoop env c aa mons ci s a st)) = None
        \<longrightarrow> length ks = length mons \<and> (\<forall>k\<in>set ks. 1 \<le> k)) \<and>
     (\<forall>k\<in>set ks. k \<le> 15) \<and>
     (\<forall>j. Suc j < length ks \<longrightarrow> 1 \<le> ks ! j) \<and>
     calls (snd (startLoop env c aa mons ci s a st))
       = calls st @ concat (map (stepCalls env c aa) (zip mons (zip infos ks)))"
proof (induction mons arbitrary: ci s a st)
  case Nil
  show ?case by simp
next
  case (Cons m mons)
  let ?pod = "makeMonPod env c m ci aa"
  obtain created w where
    cr: "PodsCreate env (Namespace c) ?pod (world st) = (created, w)" by (metis surj_pair)
  let ?st1 = "\<lparr>world = w, calls = calls st @ [PodsCreateCall (Namespace c) ?pod]\<rparr>"
  show ?case
  proof (cases "created = None \<or> created = Some AlreadyExists")
    case False
    then obtain err where e: "created = Some err" "err \<noteq> AlreadyExists" by auto
    have "startLoop env c aa (m # mons) ci s a st =
            ((Some (FailedCreateMonPod (Namespace c) err), ci, s, a), ?st1)"
      using startLoop_create_fatal [OF cr [unfolded e(1)] e(2)] .
    then show ?thesis
      by (intro exI [of _ "[ci]"] exI [of _ "[0]"]) (simp add: stepCalls_def waitCalls_def)
  next
    case True
    note unfold = startLoop_create_tolerated [OF cr True, of mons s a]
    obtain k where k: "1 \<le> k" "k \<le> 15"
      and kc: "calls (snd (waitForPodToStart env c ?pod ?st1))
                 = calls ?st1 @ waitCalls (Namespace c) (PodName ?pod) k"
      using waitForPodToStart_calls [of env c ?pod ?st1] by blast
    obtain r st2 where w: "waitForPodToStart env c ?pod ?st1 = (r, st2)" by (metis surj_pair)
    from kc w have c2: "calls st2 = calls st @ stepCalls env c aa (m, ci, k)"
      by (simp add: stepCalls_def)
    show ?thesis
    proof (cases r)
      case (Inl e)
      with unfold w c2 k show ?thesis
        by (intro exI [of _ "[ci]"] exI [of _ "[k]"]) simp
    next
      case (Inr podIP)
      let ?ci = "ci\<lparr>Monitors := (Monitors ci)(MonName m \<mapsto> ToCephMon env (MonName m) podIP)\<rparr>"
      let ?s = "if created = None then s + 1 else s"
      let ?a = "if created = None then a else a + 1"
      from unfold w Inr have eq:
        "startLoop env c aa (m # mons) ci s a st = startLoop env c aa mons ?ci ?s ?a st2"
        by simp
      from Cons.IH [of ?ci ?s ?a st2] obtain infos where
        "\<exists>ks. length infos = length ks \<and> length ks \<le> length mons \<and> (mons \<noteq> [] \<longrightarrow> ks \<noteq> []) \<and>
          (fst (fst (startLoop env c aa mons ?ci ?s ?a st2)) = None
             \<longrightarrow> length ks = length mons \<and> (\<forall>k\<in>set ks. 1 \<le> k)) \<and>
          (\<forall>k\<in>set ks. k \<le> 15) \<and>
          (\<forall>j. Suc j < length ks \<longrightarrow> 1 \<le> ks ! j) \<and>
          calls (snd (startLoop env c aa mons ?ci ?s ?a st2))
             = calls st2 @ concat (map (stepCalls env c aa) (zip mons (zip infos ks)))" ..
      then obtain ks where all:
        "length infos = length ks \<and> length ks \<le> length mons \<and> (mons \<noteq> [] \<longrightarrow> ks \<noteq> []) \<and>
          (fst (fst (startLoop env c aa mons ?ci ?s ?a st2)) = None
             \<longrightarrow> length ks = length mons \<and> (\<forall>k\<in>set ks. 1 \<le> k)) \<and>
          (\<forall>k\<in>set ks. k \<le> 15) \<and>
          (\<forall>j. Suc j < length ks \<longrightarrow> 1 \<le> ks ! j) \<and>
          calls (snd (startLoop env c aa mons ?ci ?s ?a st2))
             = calls st2 @ concat (map (stepCalls env c aa) (zip mons (zip infos ks)))" ..
      then have ih: "length infos = length ks" "length ks \<le> length mons"
          "fst (fst (startLoop env c aa mons ?ci ?s ?a st2)) = None
             \<longrightarrow> length ks = length mons \<and> (\<forall>k\<in>set ks. 1 \<le> k)"
          "\<forall>k\<in>set ks. k \<le> 15"
          "\<forall>j. Suc j < length ks \<longrightarrow> 1 \<le> ks ! j"
          "calls (snd (startLoop env c aa mons ?ci ?s ?a st2))
             = calls st2 @ concat (map (stepCalls env c aa) (zip mons (zip infos ks)))"
        by simp_all
      have nth: "\<forall>j. Suc j < length (k # ks) \<longrightarrow> 1 \<le> (k # ks) ! j"
        using ih(5) k(1) by (auto simp: nth_Cons split: nat.splits)
      show ?thesis
        unfolding eq
        using ih(1-4) ih(6) nth k c2
        by (intro exI [of _ "ci # infos"] exI [of _ "k # ks"]) simp
    qed
  qed
qed

subsection \<open>startPods after the listing\<close>

lemma startPods_listed:
  assumes "NodesList env (world st) = (Inr n, w1)"
    and "pollPods env c (Name ci) w1 = (Inr (running, pending), w2)"
  shows "startPods env c ci mons st =
           (if int (length running) = Size c
            then ((None, ci\<lparr>Monitors := recordRunning env running Map.empty\<rparr>),
                  \<lparr>world = w2,
                   calls = calls st @ [NodesListCall, PollPodsCall (Namespace c) (Name ci)]\<rparr>)
            else (let L = startLoop env c (Size c \<le> int n) mons
                         (ci\<lparr>Monitors := recordRunning env running Map.empty\<rparr>) 0 0
                         \<lparr>world = w2,
                          calls = calls st @ [NodesListCall, PollPodsCall (Namespace c) (Name ci)]\<rparr>
                  in ((fst (fst L), fst (snd (fst L))), snd L)))"
  using assms
  by (simp add: startPods_def getAntiAffinity_def nodesList_def pollPodsCall_def issue_def
      split: prod.splits)

lemma createdPods_append: "createdPods (xs @ ys) = createdPods xs @ createdPods ys"
  by (induction xs rule: createdPods.induct) simp_all

lemma createdPods_waitCalls: "createdPods (waitCalls ns name k) = []"
  by (induction k) (simp_all add: waitCalls_def)

lemma createdPods_steps:
  "length infos = length ks \<Longrightarrow>
     createdPods (concat (map (stepCalls env c aa) (zip mons (zip infos ks))))
       = map (\<lambda>(m, info). makeMonPod env c m info aa) (zip mons infos)"
proof (induction mons arbitrary: infos ks)
  case Nil
  show ?case by simp
next
  case (Cons m mons)
  show ?case
  proof (cases infos)
    case Nil
    then show ?thesis by simp
  next
    case (Cons info infos')
    with Cons.prems obtain k ks' where ks: "ks = k # ks'" "length infos' = length ks'"
      by (cases ks) auto
    show ?thesis
      using Cons.IH [OF ks(2)] Cons ks(1)
      by (simp add: createdPods_append stepCalls_def createdPods_waitCalls)
  qed
qed

lemma startLoop_frame:
  "Name (fst (snd (fst (startLoop env c aa mons ci s a st)))) = Name ci \<and>
   FSID (fst (snd (fst (startLoop env c aa mons ci s a st)))) = FSID ci \<and>
   MonitorSecret (fst (snd (fst (startLoop env c aa mons ci s a st)))) = MonitorSecret ci \<and>
   AdminSecret (fst (snd (fst (startLoop env c aa mons ci s a st)))) = AdminSecret ci \<and>
   dom (Monitors (fst (snd (fst (startLoop env c aa mons ci s a st)))))
     \<subseteq> dom (Monitors ci) \<union> MonName ` set mons"
proof (induction mons arbitrary: ci s a st)
  case Nil
  show ?case by simp
next
  case (Cons m mons)
  let ?pod = "makeMonPod env c m ci aa"
  obtain created w where
    cr: "PodsCreate env (Namespace c) ?pod (world st) = (created, w)" by (metis surj_pair)
  let ?st1 = "\<lparr>world = w, calls = calls st @ [PodsCreateCall (Namespace c) ?pod]\<rparr>"
  show ?case
  proof (cases "created = None \<or> created = Some AlreadyExists")
    case False
    then obtain err where e: "created = Some err" "err \<noteq> AlreadyExists" by auto
    show ?thesis
      unfolding startLoop_create_fatal [OF cr [unfolded e(1)] e(2)] by auto
  next
    case True
    note unfold = startLoop_create_tolerated [OF cr True, of mons s a]
    obtain r st2 where w: "waitForPodToStart env c ?pod ?st1 = (r, st2)" by (metis surj_pair)
    show ?thesis
    proof (cases r)
      case (Inl e)
      show ?thesis unfolding unfold w Inl by auto
    next
      case (Inr podIP)
      let ?ci = "ci\<lparr>Monitors := (Monitors ci)(MonName m \<mapsto> ToCephMon env (MonName m) podIP)\<rparr>"
      let ?s = "if created = None then s + 1 else s"
      let ?a = "if created = None then a else a + 1"
      from unfold w Inr have eq:
        "startLoop env c aa (m # mons) ci s a st = startLoop env c aa mons ?ci ?s ?a st2"
        by simp
      define R where "R = fst (snd (fst (startLoop env c aa mons ?ci ?s ?a st2)))"
      have ih: "Name R = Name ?ci" "FSID R = FSID ?ci" "MonitorSecret R = MonitorSecret ?ci"
        "AdminSecret R = AdminSecret ?ci"
        "dom (Monitors R) \<subseteq> dom (Monitors ?ci) \<union> MonName ` set mons"
        unfolding R_def using Cons.IH [of ?ci ?s ?a st2] by blast+
      have "dom (Monitors R) \<subseteq> dom (Monitors ci) \<union> MonName ` set (m # mons)"
        using ih(5) by auto
      with ih(1-4) show ?thesis
        unfolding eq R_def [symmetric] by simp
    qed
  qed
qed

lemma startPods_not_listed:
  "NodesList env (world st) = (Inl e, w1) \<Longrightarrow>
     startPods env c ci mons st =
       ((Some (FailedGetAntiAffinity (FailedGetNodes e)), ci),
        \<lparr>world = w1, calls = calls st @ [NodesListCall]\<rparr>)"
  "NodesList env (world st) = (Inr n, w1) \<Longrightarrow> pollPods env c (Name ci) w1 = (Inl e, w2) \<Longrightarrow>
     startPods env c ci mons st =
       ((Some (FailedGetMonPods e), ci),
        \<lparr>world = w2, calls = calls st @ [NodesListCall, PollPodsCall (Namespace c) (Name ci)]\<rparr>)"
  by (simp_all add: startPods_def getAntiAffinity_def nodesList_def pollPodsCall_def issue_def)

lemma startPods_cases:
  obtains (nodes) e w1 where "NodesList env (world st) = (Inl e, w1)"
  | (poll) n w1 e w2 where "NodesList env (world st) = (Inr n, w1)"
      "pollPods env c (Name ci) w1 = (Inl e, w2)"
  | (listed) n w1 running pending w2 where "NodesList env (world st) = (Inr n, w1)"
      "pollPods env c (Name ci) w1 = (Inr (running, pending), w2)"
proof -
  obtain r1 w1 where n: "NodesList env (world st) = (r1, w1)" by (metis surj_pair)
  show thesis
  proof (cases r1)
    case (Inl e)
    with n nodes show thesis by simp
  next
    case (Inr k)
    obtain r2 w2 where p: "pollPods env c (Name ci) w1 = (r2, w2)" by (metis surj_pair)
    show thesis
    proof (cases r2)
      case (Inl e)
      with n Inr p poll show thesis by simp
    next
      case r: (Inr rp)
      obtain running pending where "rp = (running, pending)" by (metis surj_pair)
      with n Inr p r listed show thesis by simp
    qed
  qed
qed

lemma startPods_fields:
  "Name (snd (fst (startPods env c ci mons st))) = Name ci \<and>
   FSID (snd (fst (startPods env c ci mons st))) = FSID ci \<and>
   MonitorSecret (snd (fst (startPods env c ci mons st))) = MonitorSecret ci \<and>
   AdminSecret (snd (fst (startPods env c ci mons st))) = AdminSecret ci"
proof (cases rule: startPods_cases [where env = env and st = st and c = c and ci = ci])
  case (nodes e w1)
  then show ?thesis by (simp add: startPods_not_listed)
next
  case (poll n w1 e w2)
  then show ?thesis by (simp add: startPods_not_listed)
next
  case (listed n w1 running pending w2)
  let ?ci = "ci\<lparr>Monitors := recordRunning env running Map.empty\<rparr>"
  let ?st2 = "\<lparr>world = w2, calls = calls st @ [NodesListCall, PollPodsCall (Namespace c) (Name ci)]\<rparr>"
  show ?thesis
    using startLoop_frame [of env c "Size c \<le> int n" mons ?ci 0 0 ?st2]
    by (simp add: startPods_listed [OF listed] Let_def)
qed

lemma startPods_dom:
  assumes "NodesList env (world st) = (Inr n, w1)"
    and "pollPods env c (Name ci) w1 = (Inr (running, pending), w2)"
  shows "dom (Monitors (snd (fst (startPods env c ci mons st))))
           \<subseteq> PodName ` set running \<union> MonName ` set mons"
proof -
  let ?ci = "ci\<lparr>Monitors := recordRunning env running Map.empty\<rparr>"
  let ?st2 = "\<lparr>world = w2, calls = calls st @ [NodesListCall, PollPodsCall (Namespace c) (Name ci)]\<rparr>"
  show ?thesis
    using startLoop_frame [of env c "Size c \<le> int n" mons ?ci 0 0 ?st2]
    by (auto simp: startPods_listed [OF assms] Let_def dom_recordRunning)
qed

subsection \<open>The run of startPods, round by round\<close>

lemma startLoop_single:
  "((fst (fst (startLoop env c aa [m] ci s a st)), fst (snd (fst (startLoop env c aa [m] ci s a st)))),
    snd (startLoop env c aa [m] ci s a st)) = oneRound env c aa m ci st"
proof -
  let ?pod = "makeMonPod env c m ci aa"
  obtain created w where
    cr: "PodsCreate env (Namespace c) ?pod (world st) = (created, w)" by (metis surj_pair)
  let ?st1 = "\<lparr>world = w, calls = calls st @ [PodsCreateCall (Namespace c) ?pod]\<rparr>"
  show ?thesis
  proof (cases "created = None \<or> created = Some AlreadyExists")
    case False
    then obtain err where e: "created = Some err" "err \<noteq> AlreadyExists" by auto
    show ?thesis
      unfolding startLoop_create_fatal [OF cr [unfolded e(1)] e(2)]
      using cr e by (simp add: oneRound_def Let_def)
  next
    case True
    obtain r st2 where w: "waitForPodToStart env c ?pod ?st1 = (r, st2)" by (metis surj_pair)
    show ?thesis
      unfolding startLoop_create_tolerated [OF cr True, of "[]" s a]
      using cr True w
      by (cases r) (auto simp: oneRound_def Let_def)
  qed
qed

lemma startLoop_append:
  "startLoop env c aa (pre @ post) ci s a st =
     (case startLoop env c aa pre ci s a st of
        ((Some e, r), st') \<Rightarrow> ((Some e, r), st')
      | ((None, ci', s', a'), st') \<Rightarrow> startLoop env c aa post ci' s' a' st')"
proof (induction pre arbitrary: ci s a st)
  case Nil
  show ?case by simp
next
  case (Cons m pre)
  let ?pod = "makeMonPod env c m ci aa"
  obtain created w where
    cr: "PodsCreate env (Namespace c) ?pod (world st) = (created, w)" by (metis surj_pair)
  let ?st1 = "\<lparr>world = w, calls = calls st @ [PodsCreateCall (Namespace c) ?pod]\<rparr>"
  show ?case
  proof (cases "created = None \<or> created = Some AlreadyExists")
    case False
    then obtain err where e: "created = Some err" "err \<noteq> AlreadyExists" by auto
    show ?thesis
      unfolding append_Cons startLoop_create_fatal [OF cr [unfolded e(1)] e(2)] by simp
  next
    case True
    obtain r st2 where w: "waitForPodToStart env c ?pod ?st1 = (r, st2)" by (metis surj_pair)
    show ?thesis
    proof (cases r)
      case (Inl e)
      show ?thesis
        unfolding append_Cons startLoop_create_tolerated [OF cr True] w Inl by simp
    next
      case (Inr podIP)
      show ?thesis
        unfolding append_Cons startLoop_create_tolerated [OF cr True] w Inr
        using Cons.IH by simp
    qed
  qed
qed

lemma startPods_loop:
  assumes "NodesList env (world st) = (Inr n, w1)"
    and "pollPods env c (Name ci) w1 = (Inr (running, pending), w2)"
    and "int (length running) \<noteq> Size c"
  shows "startPods env c ci mons st =
     ((fst (fst (startLoop env c (Size c \<le> int n) mons
                  (ci\<lparr>Monitors := recordRunning env running Map.empty\<rparr>) 0 0
                  \<lparr>world = w2, calls = calls st @ [NodesListCall, PollPodsCall (Namespace c) (Name ci)]\<rparr>)),
       fst (snd (fst (startLoop env c (Size c \<le> int n) mons
                  (ci\<lparr>Monitors := recordRunning env running Map.empty\<rparr>) 0 0
                  \<lparr>world = w2, calls = calls st @ [NodesListCall, PollPodsCall (Namespace c) (Name ci)]\<rparr>)))),
      snd (startLoop env c (Size c \<le> int n) mons
                  (ci\<lparr>Monitors := recordRunning env running Map.empty\<rparr>) 0 0
                  \<lparr>world = w2, calls = calls st @ [NodesListCall, PollPodsCall (Namespace c) (Name ci)]\<rparr>))"
  using startPods_listed [OF assms(1,2), of mons] assms(3) by (simp add: Let_def)

lemma startPods_nil:
  assumes "NodesList env (world st) = (Inr n, w1)"
    and "pollPods env c (Name ci) w1 = (Inr (running, pending), w2)"
  shows "startPods env c ci [] st =
     ((None, ci\<lparr>Monitors := recordRunning env running Map.empty\<rparr>),
      \<lparr>world = w2, calls = calls st @ [NodesListCall, PollPodsCall (Namespace c) (Name ci)]\<rparr>)"
  using startPods_listed [OF assms, of "[]"] by (simp add: Let_def)

lemma startPods_input_map_irrelevant:
  assumes "NodesList env (world st) = (Inr n, w1)"
    and "pollPods env c (Name ci) w1 = (Inr (running, pending), w2)"
  shows "startPods env c (ci\<lparr>Monitors := M\<rparr>) mons st = startPods env c ci mons st"
proof -
  have p: "pollPods env c (Name (ci\<lparr>Monitors := M\<rparr>)) w1 = (Inr (running, pending), w2)"
    using assms(2) by simp
  show ?thesis
    unfolding startPods_listed [OF assms] startPods_listed [OF assms(1) p] by simp
qed

lemma startPods_prefix_abort:
  assumes "NodesList env (world st) = (Inr n, w1)"
    and "pollPods env c (Name ci) w1 = (Inr (running, pending), w2)"
    and "int (length running) \<noteq> Size c"
    and "fst (fst (startPods env c ci (take k mons) st)) \<noteq> None"
  shows "startPods env c ci mons st = startPods env c ci (take k mons) st"
proof -
  let ?ci = "ci\<lparr>Monitors := recordRunning env running Map.empty\<rparr>"
  let ?st2 = "\<lparr>world = w2, calls = calls st @ [NodesListCall, PollPodsCall (Namespace c) (Name ci)]\<rparr>"
  let ?aa = "Size c \<le> int n"
  obtain e r st' where pre: "startLoop env c ?aa (take k mons) ?ci 0 0 ?st2 = ((e, r), st')"
    by (metis surj_pair)
  from assms(4) have "e \<noteq> None"
    unfolding startPods_loop [OF assms(1-3)] pre by simp
  then obtain err where e: "e = Some err" by auto
  have "startLoop env c ?aa (take k mons @ drop k mons) ?ci 0 0 ?st2 = ((Some err, r), st')"
    unfolding startLoop_append pre e by simp
  then have "startLoop env c ?aa mons ?ci 0 0 ?st2 = startLoop env c ?aa (take k mons) ?ci 0 0 ?st2"
    unfolding pre e by simp
  then show ?thesis
    unfolding startPods_loop [OF assms(1-3)] by simp
qed

lemma startPods_round:
  assumes "NodesList env (world st) = (Inr n, w1)"
    and "pollPods env c (Name ci) w1 = (Inr (running, pending), w2)"
    and "int (length running) \<noteq> Size c"
    and "k < length mons"
    and "startPods env c ci (take k mons) st = ((None, info), st')"
  shows "startPods env c ci (take (Suc k) mons) st
           = oneRound env c (Size c \<le> int n) (mons ! k) info st'"
proof -
  let ?ci = "ci\<lparr>Monitors := recordRunning env running Map.empty\<rparr>"
  let ?st2 = "\<lparr>world = w2, calls = calls st @ [NodesListCall, PollPodsCall (Namespace c) (Name ci)]\<rparr>"
  let ?aa = "Size c \<le> int n"
  obtain e i s a st'' where pre: "startLoop env c ?aa (take k mons) ?ci 0 0 ?st2 = ((e, i, s, a), st'')"
    by (metis surj_pair)
  from assms(5) have eq: "e = None" "i = info" "st'' = st'"
    unfolding startPods_loop [OF assms(1-3)] pre by simp_all
  have t: "take (Suc k) mons = take k mons @ [mons ! k]"
    using assms(4) by (rule take_Suc_conv_app_nth)
  have "startLoop env c ?aa (take (Suc k) mons) ?ci 0 0 ?st2
          = startLoop env c ?aa [mons ! k] info s a st'"
    unfolding t startLoop_append pre eq by simp
  then show ?thesis
    unfolding startPods_loop [OF assms(1-3)] by (simp add: startLoop_single)
qed

lemma startLoop_dom_exact:
  "\<exists>j\<le>length mons.
     dom (Monitors (fst (snd (fst (startLoop env c aa mons ci s a st)))))
       = dom (Monitors ci) \<union> MonName ` set (take j mons) \<and>
     (fst (fst (startLoop env c aa mons ci s a st)) = None \<longrightarrow> j = length mons) \<and>
     (fst (fst (startLoop env c aa mons ci s a st)) \<noteq> None \<longrightarrow> j < length mons)"
proof (induction mons arbitrary: ci s a st)
  case Nil
  show ?case by simp
next
  case (Cons m mons)
  let ?pod = "makeMonPod env c m ci aa"
  obtain created w where
    cr: "PodsCreate env (Namespace c) ?pod (world st) = (created, w)" by (metis surj_pair)
  let ?st1 = "\<lparr>world = w, calls = calls st @ [PodsCreateCall (Namespace c) ?pod]\<rparr>"
  show ?case
  proof (cases "created = None \<or> created = Some AlreadyExists")
    case False
    then obtain err where e: "created = Some err" "err \<noteq> AlreadyExists" by auto
    show ?thesis
      unfolding startLoop_create_fatal [OF cr [unfolded e(1)] e(2)]
      by (intro exI [of _ 0]) simp
  next
    case True
    note unfold = startLoop_create_tolerated [OF cr True, of mons s a]
    obtain r st2 where w: "waitForPodToStart env c ?pod ?st1 = (r, st2)" by (metis surj_pair)
    show ?thesis
    proof (cases r)
      case (Inl e)
      show ?thesis unfolding unfold w Inl by (intro exI [of _ 0]) simp
    next
      case (Inr podIP)
      let ?ci = "ci\<lparr>Monitors := (Monitors ci)(MonName m \<mapsto> ToCephMon env (MonName m) podIP)\<rparr>"
      let ?s = "if created = None then s + 1 else s"
      let ?a = "if created = None then a else a + 1"
      from unfold w Inr have eq:
        "startLoop env c aa (m # mons) ci s a st = startLoop env c aa mons ?ci ?s ?a st2"
        by simp
      define L where "L = startLoop env c aa mons ?ci ?s ?a st2"
      from Cons.IH [of ?ci ?s ?a st2] obtain j where all:
        "j \<le> length mons \<and>
         dom (Monitors (fst (snd (fst L)))) = dom (Monitors ?ci) \<union> MonName ` set (take j mons) \<and>
         (fst (fst L) = None \<longrightarrow> j = length mons) \<and>
         (fst (fst L) \<noteq> None \<longrightarrow> j < length mons)"
        unfolding L_def ..
      then have j: "j \<le> length mons"
        "dom (Monitors (fst (snd (fst L)))) = dom (Monitors ?ci) \<union> MonName ` set (take j mons)"
        "fst (fst L) = None \<longrightarrow> j = length mons"
        "fst (fst L) \<noteq> None \<longrightarrow> j < length mons"
        by simp_all
      have d1: "dom (Monitors ?ci) = insert (MonName m) (dom (Monitors ci))" by simp
      have d: "dom (Monitors (fst (snd (fst L))))
                 = dom (Monitors ci) \<union> MonName ` set (take (Suc j) (m # mons))"
        unfolding j(2) d1 by simp
      show ?thesis
        unfolding eq L_def [symmetric]
        using j(1,3,4) d by (intro exI [of _ "Suc j"]) simp
    qed
  qed
qed

lemma startPods_dom_exact:
  assumes "NodesList env (world st) = (Inr n, w1)"
    and "pollPods env c (Name ci) w1 = (Inr (running, pending), w2)"
    and "int (length running) \<noteq> Size c"
  shows "\<exists>j\<le>length mons.
     dom (Monitors (snd (fst (startPods env c ci mons st))))
       = PodName ` set running \<union> MonName ` set (take j mons) \<and>
     (fst (fst (startPods env c ci mons st)) = None \<longrightarrow> j = length mons) \<and>
     (fst (fst (startPods env c ci mons st)) \<noteq> None \<longrightarrow> j < length mons)"
  using startLoop_dom_exact [of mons env c "Size c \<le> int n"
      "ci\<lparr>Monitors := recordRunning env running Map.empty\<rparr>" 0 0
      "\<lparr>world = w2, calls = calls st @ [NodesListCall, PollPodsCall (Namespace c) (Name ci)]\<rparr>"]
  unfolding startPods_loop [OF assms] by (simp add: dom_recordRunning)

subsection \<open>Running the small cluster\<close>

lemmas run_defs =
  startPods_def getAntiAffinity_def nodesList_def pollPodsCall_def issue_def
  startLoop.simps(2) podsCreate_def waitForPodToStart_def waitLoop.simps after_def podsGet_def
  IsKubernetesResourceAlreadyExistError_def IsKubernetesResourceNotFoundError_def
  demoEnv_def demoCluster_def demoInfo_def demoMons_def demoPod_def st0_def
  PodRunning_def PodPending_def

lemma upt_3: "[0 ..< 3] = [0, 1, 2]"
  by (simp add: eval_nat_numeral)

lemma monConfigs_demo: "monConfigs demoEnv demoCluster = demoMons"
  by (simp add: monConfigs_def demoEnv_def demoCluster_def demoMons_def Sprintf_d_def
      digits.simps upt_3)

subsection \<open>The short circuit\<close>

text \<open>
  C7. When the nodes and the pods have been listed and the number of running pods equals
  \<open>Size\<close>, \<open>startPods\<close> returns without error after these two listings: it creates
  no pod, fetches no pod and does not sleep. The monitor map then holds exactly the names
  of the running pods; each name maps to the entry made from a running pod of that name
  and its address, the pod itself when the names are distinct.
\<close>

theorem startPods_short_circuit:
  assumes "NodesList env (world st) = (Inr n, w1)"
    and "pollPods env c (Name ci) w1 = (Inr (running, pending), w2)"
    and "int (length running) = Size c"
  shows "fst (fst (startPods env c ci mons st)) = None \<and>
         issued st (snd (startPods env c ci mons st))
           = [NodesListCall, PollPodsCall (Namespace c) (Name ci)] \<and>
         createdPods (issued st (snd (startPods env c ci mons st))) = [] \<and>
         dom (Monitors (snd (fst (startPods env c ci mons st)))) = PodName ` set running \<and>
         (\<forall>m\<in>set running. \<exists>m'\<in>set running. PodName m' = PodName m \<and>
            Monitors (snd (fst (startPods env c ci mons st))) (PodName m)
              = Some (ToCephMon env (PodName m') (PodIP m'))) \<and>
         (distinct (map PodName running) \<longrightarrow>
            (\<forall>m\<in>set running.
               Monitors (snd (fst (startPods env c ci mons st))) (PodName m)
                 = Some (ToCephMon env (PodName m) (PodIP m))))"
proof -
  have eq: "startPods env c ci mons st =
     ((None, ci\<lparr>Monitors := recordRunning env running Map.empty\<rparr>),
      \<lparr>world = w2, calls = calls st @ [NodesListCall, PollPodsCall (Namespace c) (Name ci)]\<rparr>)"
    using startPods_listed [OF assms(1,2)] assms(3) by simp
  have last: "\<exists>m'\<in>set running. PodName m' = PodName m \<and>
       recordRunning env running Map.empty (PodName m) = Some (ToCephMon env (PodName m') (PodIP m'))"
    if "m \<in> set running" for m
  proof -
    from that have "PodName m \<in> dom (recordRunning env running Map.empty)"
      by (simp add: dom_recordRunning)
    then obtain v where v: "recordRunning env running Map.empty (PodName m) = Some v" by blast
    then have "map_of (rev (map (\<lambda>m. (PodName m, ToCephMon env (PodName m) (PodIP m))) running))
                 (PodName m) = Some v"
      by (simp add: recordRunning_map_of)
    then have "(PodName m, v) \<in> set (map (\<lambda>m. (PodName m, ToCephMon env (PodName m) (PodIP m))) running)"
      using map_of_SomeD by fastforce
    with v show ?thesis by auto
  qed
  show ?thesis
    unfolding eq using last
    by (simp add: issued_def dom_recordRunning recordRunning_distinct)
qed

theorem startPods_short_circuit_witness:
  "NodesList allRunningEnv (world st0) = (Inr 3, ()) \<and>
   int (length (fst (projr (fst (pollPods allRunningEnv demoCluster (Name demoInfo) ())))))
     = Size demoCluster \<and>
   fst (fst (startPods allRunningEnv demoCluster demoInfo demoMons st0)) = None \<and>
   issued st0 (snd (startPods allRunningEnv demoCluster demoInfo demoMons st0))
     = [NodesListCall, PollPodsCall ''rook'' ''rookcluster''] \<and>
   Monitors (snd (fst (startPods allRunningEnv demoCluster demoInfo demoMons st0))) ''mon1''
     = Some (''mon1'', ''10.0.0.8'')"
proof -
  let ?running = "[\<lparr>PodName = ''mon0'', Phase = PodRunning, PodIP = ''10.0.0.7''\<rparr>,
               \<lparr>PodName = ''mon1'', Phase = PodRunning, PodIP = ''10.0.0.8''\<rparr>,
               \<lparr>PodName = ''mon2'', Phase = PodRunning, PodIP = ''10.0.0.9''\<rparr>]"
  have h1: "NodesList allRunningEnv (world st0) = (Inr 3, ())"
    by (simp add: allRunningEnv_def demoEnv_def)
  have h2: "pollPods allRunningEnv demoCluster (Name demoInfo) () = (Inr (?running, []), ())"
    by (simp add: allRunningEnv_def demoEnv_def)
  have h3: "int (length ?running) = Size demoCluster"
    by (simp add: demoCluster_def)
  have d: "distinct (map PodName ?running)" by simp
  have m: "\<lparr>PodName = ''mon1'', Phase = PodRunning, PodIP = ''10.0.0.8''\<rparr> \<in> set ?running" by simp
  have tc: "ToCephMon allRunningEnv = Pair" by (simp add: allRunningEnv_def demoEnv_def)
  note t = startPods_short_circuit [OF h1 h2 h3, of demoMons]
  have
    "Monitors (snd (fst (startPods allRunningEnv demoCluster demoInfo demoMons st0)))
       (PodName \<lparr>PodName = ''mon1'', Phase = PodRunning, PodIP = ''10.0.0.8''\<rparr>)
     = Some (ToCephMon allRunningEnv
         (PodName \<lparr>PodName = ''mon1'', Phase = PodRunning, PodIP = ''10.0.0.8''\<rparr>)
         (PodIP \<lparr>PodName = ''mon1'', Phase = PodRunning, PodIP = ''10.0.0.8''\<rparr>))"
    by (rule t [THEN conjunct2, THEN conjunct2, THEN conjunct2, THEN conjunct2, THEN conjunct2,
          rule_format, OF d m])
  then have v: "Monitors (snd (fst (startPods allRunningEnv demoCluster demoInfo demoMons st0))) ''mon1''
     = Some (''mon1'', ''10.0.0.8'')"
    by (simp add: tc)
  show ?thesis
    using t h1 h2 h3 v by (simp add: demoCluster_def demoInfo_def)
qed

subsection \<open>The creates of startPods\<close>

text \<open>
  C4, as the claim states it, fails: with three monitors wanted and the pod of mon0
  already classified as running, \<open>startPods\<close> issues a create for mon0 too.
\<close>

theorem startPods_creates_for_running_instance:
  "fst (pollPods partlyRunningEnv demoCluster (Name demoInfo) ())
     = Inr ([\<lparr>PodName = ''mon0'', Phase = PodRunning, PodIP = ''10.0.0.7''\<rparr>], []) \<and>
   createdPods (calls (snd (startPods partlyRunningEnv demoCluster demoInfo demoMons st0)))
     = [demoPod ''mon0'', demoPod ''mon1'', demoPod ''mon2'']"
  by (simp add: run_defs partlyRunningEnv_def)

lemma startPods_calls_shape:
  assumes "NodesList env (world st) = (Inr n, w1)"
    and "pollPods env c (Name ci) w1 = (Inr (running, pending), w2)"
  shows "(int (length running) = Size c
            \<longrightarrow> createdPods (issued st (snd (startPods env c ci mons st))) = []) \<and>
         (int (length running) \<noteq> Size c
            \<longrightarrow> (\<exists>infos ks. length infos = length ks \<and> length ks \<le> length mons \<and>
                  (mons \<noteq> [] \<longrightarrow> ks \<noteq> []) \<and>
                  (fst (fst (startPods env c ci mons st)) = None
                     \<longrightarrow> length ks = length mons \<and> (\<forall>k\<in>set ks. 1 \<le> k)) \<and>
                  (\<forall>k\<in>set ks. k \<le> 15) \<and>
                  (\<forall>j. Suc j < length ks \<longrightarrow> 1 \<le> ks ! j) \<and>
                  issued st (snd (startPods env c ci mons st))
                    = [NodesListCall, PollPodsCall (Namespace c) (Name ci)]
                      @ concat (map (stepCalls env c (Size c \<le> int n))
                                     (zip mons (zip infos ks))) \<and>
                  createdPods (issued st (snd (startPods env c ci mons st)))
                    = map (\<lambda>(m, info). makeMonPod env c m info (Size c \<le> int n))
                          (zip mons infos)))"
proof (cases "int (length running) = Size c")
  case True
  then show ?thesis
    using startPods_listed [OF assms, of mons] by (simp add: issued_def)
next
  case False
  let ?ci = "ci\<lparr>Monitors := recordRunning env running Map.empty\<rparr>"
  let ?st2 = "\<lparr>world = w2, calls = calls st @ [NodesListCall, PollPodsCall (Namespace c) (Name ci)]\<rparr>"
  let ?L = "startLoop env c (Size c \<le> int n) mons ?ci 0 0 ?st2"
  let ?R = "startPods env c ci mons st"
  from False have eq: "?R = ((fst (fst ?L), fst (snd (fst ?L))), snd ?L)"
    using startPods_listed [OF assms, of mons] by (simp add: Let_def)
  from startLoop_calls [of mons env c "Size c \<le> int n" ?ci 0 0 ?st2] obtain infos where
    "\<exists>ks. length infos = length ks \<and> length ks \<le> length mons \<and> (mons \<noteq> [] \<longrightarrow> ks \<noteq> []) \<and>
       (fst (fst ?L) = None \<longrightarrow> length ks = length mons \<and> (\<forall>k\<in>set ks. 1 \<le> k)) \<and>
       (\<forall>k\<in>set ks. k \<le> 15) \<and> (\<forall>j. Suc j < length ks \<longrightarrow> 1 \<le> ks ! j) \<and>
       calls (snd ?L) = calls ?st2 @ concat (map (stepCalls env c (Size c \<le> int n)) (zip mons (zip infos ks)))" ..
  then obtain ks where all:
    "length infos = length ks \<and> length ks \<le> length mons \<and> (mons \<noteq> [] \<longrightarrow> ks \<noteq> []) \<and>
       (fst (fst ?L) = None \<longrightarrow> length ks = length mons \<and> (\<forall>k\<in>set ks. 1 \<le> k)) \<and>
       (\<forall>k\<in>set ks. k \<le> 15) \<and> (\<forall>j. Suc j < length ks \<longrightarrow> 1 \<le> ks ! j) \<and>
       calls (snd ?L) = calls ?st2 @ concat (map (stepCalls env c (Size c \<le> int n)) (zip mons (zip infos ks)))" ..
  then have len: "length infos = length ks"
    and cs: "calls (snd ?L) = calls ?st2 @ concat (map (stepCalls env c (Size c \<le> int n)) (zip mons (zip infos ks)))"
    by simp_all
  have i: "issued st (snd ?R) = [NodesListCall, PollPodsCall (Namespace c) (Name ci)]
              @ concat (map (stepCalls env c (Size c \<le> int n)) (zip mons (zip infos ks)))"
    unfolding eq issued_def by (simp add: cs)
  have cp: "createdPods (issued st (snd ?R))
              = map (\<lambda>(m, info). makeMonPod env c m info (Size c \<le> int n)) (zip mons infos)"
    unfolding i by (simp add: createdPods_append createdPods_steps [OF len])
  have e: "fst (fst ?R) = fst (fst ?L)" unfolding eq by simp
  have "\<exists>infos ks. length infos = length ks \<and> length ks \<le> length mons \<and>
          (mons \<noteq> [] \<longrightarrow> ks \<noteq> []) \<and>
          (fst (fst ?R) = None \<longrightarrow> length ks = length mons \<and> (\<forall>k\<in>set ks. 1 \<le> k)) \<and>
          (\<forall>k\<in>set ks. k \<le> 15) \<and>
          (\<forall>j. Suc j < length ks \<longrightarrow> 1 \<le> ks ! j) \<and>
          issued st (snd ?R)
            = [NodesListCall, PollPodsCall (Namespace c) (Name ci)]
              @ concat (map (stepCalls env c (Size c \<le> int n)) (zip mons (zip infos ks))) \<and>
          createdPods (issued st (snd ?R))
            = map (\<lambda>(m, info). makeMonPod env c m info (Size c \<le> int n)) (zip mons infos)"
    using all i cp unfolding e
    by (intro exI [of _ infos] exI [of _ ks]) simp
  with False show ?thesis by simp
qed

text \<open>
  C4, amended. The creates of \<open>startPods\<close> depend on the number of running pods, not
  on which pods run. When that number equals \<open>Size\<close> no pod is created. Otherwise
  \<open>startPods\<close> goes through the monitor configurations in their order, from the first
  one on: it creates the pod of the configuration, running or not, and waits for it (1
  to 15 attempts) before the next create; a pod that runs already is created again, and
  the answer AlreadyExists is tolerated. The run is fixed round by round. On no
  configuration it ends after the two listings. When the run on the first \<open>k\<close>
  configurations fails, the run on all of them is that very run, with the same error,
  cluster info, calls and world: nothing is created after the first create or wait that
  fails. When the run on the first \<open>k\<close> configurations succeeds, the run on the first
  \<open>k + 1\<close> continues it by one round for configuration \<open>k\<close>, as \<open>oneRound\<close>
  describes it.
\<close>

theorem startPods_creates_regardless_of_running:
  assumes "NodesList env (world st) = (Inr n, w1)"
    and "pollPods env c (Name ci) w1 = (Inr (running, pending), w2)"
  shows "(int (length running) = Size c
            \<longrightarrow> createdPods (issued st (snd (startPods env c ci mons st))) = []) \<and>
         (int (length running) \<noteq> Size c
            \<longrightarrow> (\<exists>infos ks. length infos = length ks \<and> length ks \<le> length mons \<and>
                  (mons \<noteq> [] \<longrightarrow> ks \<noteq> []) \<and>
                  (fst (fst (startPods env c ci mons st)) = None
                     \<longrightarrow> length ks = length mons \<and> (\<forall>k\<in>set ks. 1 \<le> k)) \<and>
                  (\<forall>k\<in>set ks. k \<le> 15) \<and>
                  (\<forall>j. Suc j < length ks \<longrightarrow> 1 \<le> ks ! j) \<and>
                  issued st (snd (startPods env c ci mons st))
                    = [NodesListCall, PollPodsCall (Namespace c) (Name ci)]
                      @ concat (map (stepCalls env c (Size c \<le> int n))
                                     (zip mons (zip infos ks))) \<and>
                  createdPods (issued st (snd (startPods env c ci mons st)))
                    = map (\<lambda>(m, info). makeMonPod env c m info (Size c \<le> int n))
                          (zip mons infos))) \<and>
         startPods env c ci [] st
           = ((None, ci\<lparr>Monitors := recordRunning env running Map.empty\<rparr>),
              \<lparr>world = w2,
               calls = calls st @ [NodesListCall, PollPodsCall (Namespace c) (Name ci)]\<rparr>) \<and>
         (int (length running) \<noteq> Size c
            \<longrightarrow> (\<forall>k. fst (fst (startPods env c ci (take k mons) st)) \<noteq> None
                  \<longrightarrow> startPods env c ci mons st = startPods env c ci (take k mons) st)) \<and>
         (int (length running) \<noteq> Size c
            \<longrightarrow> (\<forall>k info st'.
                  k < length mons \<and> startPods env c ci (take k mons) st = ((None, info), st')
                  \<longrightarrow> startPods env c ci (take (Suc k) mons) st
                        = oneRound env c (Size c \<le> int n) (mons ! k) info st'))"
  (is "?none \<and> ?shape \<and> ?nil \<and> ?abort \<and> ?round")
proof -
  have s: "?none \<and> ?shape" by (rule startPods_calls_shape [OF assms])
  from s have a: ?none by (rule conjunct1)
  from s have b: ?shape by (rule conjunct2)
  have n: ?nil by (rule startPods_nil [OF assms])
  have ab: ?abort
    by (intro impI allI) (rule startPods_prefix_abort [OF assms]; assumption)
  have r: ?round
    by (intro impI allI, elim conjE) (rule startPods_round [OF assms]; assumption)
  show ?thesis by (intro conjI a b n ab r)
qed

theorem startPods_creates_regardless_of_running_witness:
  "fst (fst (startPods partlyRunningEnv demoCluster demoInfo demoMons st0)) = None \<and>
   (\<exists>infos. length infos = length demoMons \<and>
      createdPods (issued st0 (snd (startPods partlyRunningEnv demoCluster demoInfo demoMons st0)))
        = map (\<lambda>(m, info). makeMonPod partlyRunningEnv demoCluster m info (Size demoCluster \<le> int 3))
            (zip demoMons infos)) \<and>
   startPods partlyRunningEnv demoCluster demoInfo (take (Suc 0) demoMons) st0
     = oneRound partlyRunningEnv demoCluster (Size demoCluster \<le> int 3) (demoMons ! 0)
         (demoInfo\<lparr>Monitors := recordRunning partlyRunningEnv
             [\<lparr>PodName = ''mon0'', Phase = PodRunning, PodIP = ''10.0.0.7''\<rparr>] Map.empty\<rparr>)
         \<lparr>world = (),
          calls = calls st0 @ [NodesListCall, PollPodsCall (Namespace demoCluster) (Name demoInfo)]\<rparr> \<and>
   fst (fst (startPods pendingEnv demoCluster demoInfo (take 1 demoMons) st0)) \<noteq> None \<and>
   startPods pendingEnv demoCluster demoInfo demoMons st0
     = startPods pendingEnv demoCluster demoInfo (take 1 demoMons) st0"
proof -
  let ?running = "[\<lparr>PodName = ''mon0'', Phase = PodRunning, PodIP = ''10.0.0.7''\<rparr>]"
  have h1: "NodesList partlyRunningEnv (world st0) = (Inr 3, ())"
    by (simp add: partlyRunningEnv_def demoEnv_def)
  have h2: "pollPods partlyRunningEnv demoCluster (Name demoInfo) () = (Inr (?running, []), ())"
    by (simp add: partlyRunningEnv_def demoEnv_def)
  have ne: "int (length ?running) \<noteq> Size demoCluster"
    by (simp add: demoCluster_def)
  have ok: "fst (fst (startPods partlyRunningEnv demoCluster demoInfo demoMons st0)) = None"
    by (simp add: run_defs partlyRunningEnv_def)
  note t = startPods_creates_regardless_of_running [OF h1 h2, of demoMons]
  have shape: "\<exists>infos. length infos = length demoMons \<and>
      createdPods (issued st0 (snd (startPods partlyRunningEnv demoCluster demoInfo demoMons st0)))
        = map (\<lambda>(m, info). makeMonPod partlyRunningEnv demoCluster m info (Size demoCluster \<le> int 3))
            (zip demoMons infos)"
    using t [THEN conjunct2, THEN conjunct1] ne ok by auto
  have k: "0 < length demoMons" by (simp add: demoMons_def)
  have first: "startPods partlyRunningEnv demoCluster demoInfo (take 0 demoMons) st0
     = ((None, demoInfo\<lparr>Monitors := recordRunning partlyRunningEnv ?running Map.empty\<rparr>),
        \<lparr>world = (),
         calls = calls st0 @ [NodesListCall, PollPodsCall (Namespace demoCluster) (Name demoInfo)]\<rparr>)"
    unfolding take_0 by (rule t [THEN conjunct2, THEN conjunct2, THEN conjunct1])
  have round: "startPods partlyRunningEnv demoCluster demoInfo (take (Suc 0) demoMons) st0
     = oneRound partlyRunningEnv demoCluster (Size demoCluster \<le> int 3) (demoMons ! 0)
         (demoInfo\<lparr>Monitors := recordRunning partlyRunningEnv ?running Map.empty\<rparr>)
         \<lparr>world = (),
          calls = calls st0 @ [NodesListCall, PollPodsCall (Namespace demoCluster) (Name demoInfo)]\<rparr>"
    by (rule t [THEN conjunct2, THEN conjunct2, THEN conjunct2, THEN conjunct2,
          rule_format, OF ne conjI [OF k first]])
  have p1: "NodesList pendingEnv (world st0) = (Inr 3, ())"
    by (simp add: pendingEnv_def demoEnv_def)
  have p2: "pollPods pendingEnv demoCluster (Name demoInfo) () = (Inr ([], []), ())"
    by (simp add: pendingEnv_def demoEnv_def)
  have pne: "int (length ([] :: Pod list)) \<noteq> Size demoCluster"
    by (simp add: demoCluster_def)
  have fails: "fst (fst (startPods pendingEnv demoCluster demoInfo (take 1 demoMons) st0)) \<noteq> None"
    by (simp add: run_defs pendingEnv_def)
  have abort: "startPods pendingEnv demoCluster demoInfo demoMons st0
     = startPods pendingEnv demoCluster demoInfo (take 1 demoMons) st0"
    by (rule startPods_creates_regardless_of_running [OF p1 p2, of demoMons,
          THEN conjunct2, THEN conjunct2, THEN conjunct2, THEN conjunct1,
          rule_format, OF pne fails])
  show ?thesis by (intro conjI ok shape round fails abort)
qed

text \<open>
  C6, as the claim states it, fails: in an empty namespace with three monitors wanted,
  when the pod of mon0 never leaves the phase Pending, \<open>startPods\<close> issues one create,
  not three, and returns the timeout of the wait for mon0.
\<close>

theorem startPods_fresh_stops_at_timeout:
  "length (monConfigs pendingEnv demoCluster) = 3 \<and>
   fst (pollPods pendingEnv demoCluster (Name demoInfo) ()) = Inr ([], []) \<and>
   createdPods (calls (snd (startPods pendingEnv demoCluster demoInfo
                               (monConfigs pendingEnv demoCluster) st0)))
     = [demoPod ''mon0''] \<and>
   fst (fst (startPods pendingEnv demoCluster demoInfo (monConfigs pendingEnv demoCluster) st0))
     = Some (FailedStartPod ''mon0'' (TimedOutWaitingForPod ''mon0''))"
  by (simp add: run_defs pendingEnv_def monConfigs_def Sprintf_d_def digits.simps upt_3)

lemma startPods_fresh_calls_shape:
  assumes "NodesList env (world st) = (Inr n, w1)"
    and "pollPods env c (Name ci) w1 = (Inr ([], []), w2)"
  shows "map MonName (monConfigs env c)
           = map (\<lambda>i. ''mon'' @ Sprintf_d (int i)) [0 ..< nat (Size c)] \<and>
         (\<exists>infos ks. length infos = length ks \<and> length ks \<le> nat (Size c) \<and>
            (0 < Size c \<longrightarrow> ks \<noteq> []) \<and>
            (fst (fst (startPods env c ci (monConfigs env c) st)) = None
               \<longrightarrow> length ks = nat (Size c) \<and> (\<forall>k\<in>set ks. 1 \<le> k)) \<and>
            (\<forall>k\<in>set ks. k \<le> 15) \<and>
            (\<forall>j. Suc j < length ks \<longrightarrow> 1 \<le> ks ! j) \<and>
            issued st (snd (startPods env c ci (monConfigs env c) st))
              = [NodesListCall, PollPodsCall (Namespace c) (Name ci)]
                @ concat (map (stepCalls env c (Size c \<le> int n))
                               (zip (monConfigs env c) (zip infos ks))) \<and>
            createdPods (issued st (snd (startPods env c ci (monConfigs env c) st)))
              = map (\<lambda>(m, info). makeMonPod env c m info (Size c \<le> int n))
                    (zip (monConfigs env c) infos))"
proof
  show "map MonName (monConfigs env c)
           = map (\<lambda>i. ''mon'' @ Sprintf_d (int i)) [0 ..< nat (Size c)]"
    by (simp add: monConfigs_def comp_def)
next
  let ?mons = "monConfigs env c"
  have len: "length ?mons = nat (Size c)" by (simp add: monConfigs_def)
  let ?ci = "ci\<lparr>Monitors := Map.empty\<rparr>"
  let ?st2 = "\<lparr>world = w2, calls = calls st @ [NodesListCall, PollPodsCall (Namespace c) (Name ci)]\<rparr>"
  let ?L = "startLoop env c (Size c \<le> int n) ?mons ?ci 0 0 ?st2"
  let ?R = "startPods env c ci ?mons st"
  show "\<exists>infos ks. length infos = length ks \<and> length ks \<le> nat (Size c) \<and>
            (0 < Size c \<longrightarrow> ks \<noteq> []) \<and>
            (fst (fst ?R) = None \<longrightarrow> length ks = nat (Size c) \<and> (\<forall>k\<in>set ks. 1 \<le> k)) \<and>
            (\<forall>k\<in>set ks. k \<le> 15) \<and>
            (\<forall>j. Suc j < length ks \<longrightarrow> 1 \<le> ks ! j) \<and>
            issued st (snd ?R)
              = [NodesListCall, PollPodsCall (Namespace c) (Name ci)]
                @ concat (map (stepCalls env c (Size c \<le> int n)) (zip ?mons (zip infos ks))) \<and>
            createdPods (issued st (snd ?R))
              = map (\<lambda>(m, info). makeMonPod env c m info (Size c \<le> int n)) (zip ?mons infos)"
  proof (cases "Size c = 0")
    case True
    then have "?R = ((None, ?ci), ?st2)"
      using startPods_listed [OF assms, of ?mons] by simp
    with True show ?thesis
      by (intro exI [of _ "[]"]) (simp add: issued_def)
  next
    case False
    then have eq: "?R = ((fst (fst ?L), fst (snd (fst ?L))), snd ?L)"
      using startPods_listed [OF assms, of ?mons] by (simp add: Let_def)
    from startLoop_calls [of ?mons env c "Size c \<le> int n" ?ci 0 0 ?st2] obtain infos where
      "\<exists>ks. length infos = length ks \<and> length ks \<le> length ?mons \<and> (?mons \<noteq> [] \<longrightarrow> ks \<noteq> []) \<and>
         (fst (fst ?L) = None \<longrightarrow> length ks = length ?mons \<and> (\<forall>k\<in>set ks. 1 \<le> k)) \<and>
         (\<forall>k\<in>set ks. k \<le> 15) \<and> (\<forall>j. Suc j < length ks \<longrightarrow> 1 \<le> ks ! j) \<and>
         calls (snd ?L) = calls ?st2 @ concat (map (stepCalls env c (Size c \<le> int n)) (zip ?mons (zip infos ks)))" ..
    then obtain ks where all:
      "length infos = length ks \<and> length ks \<le> length ?mons \<and> (?mons \<noteq> [] \<longrightarrow> ks \<noteq> []) \<and>
         (fst (fst ?L) = None \<longrightarrow> length ks = length ?mons \<and> (\<forall>k\<in>set ks. 1 \<le> k)) \<and>
         (\<forall>k\<in>set ks. k \<le> 15) \<and> (\<forall>j. Suc j < length ks \<longrightarrow> 1 \<le> ks ! j) \<and>
         calls (snd ?L) = calls ?st2 @ concat (map (stepCalls env c (Size c \<le> int n)) (zip ?mons (zip infos ks)))" ..
    then have l: "length infos = length ks"
      and cs: "calls (snd ?L) = calls ?st2 @ concat (map (stepCalls env c (Size c \<le> int n)) (zip ?mons (zip infos ks)))"
      by simp_all
    have ne: "0 < Size c \<longrightarrow> ?mons \<noteq> []" using len by auto
    have i: "issued st (snd ?R) = [NodesListCall, PollPodsCall (Namespace c) (Name ci)]
                @ concat (map (stepCalls env c (Size c \<le> int n)) (zip ?mons (zip infos ks)))"
      unfolding eq issued_def by (simp add: cs)
    have cp: "createdPods (issued st (snd ?R))
              = map (\<lambda>(m, info). makeMonPod env c m info (Size c \<le> int n)) (zip ?mons infos)"
      unfolding i by (simp add: createdPods_append createdPods_steps [OF l])
    have e: "fst (fst ?R) = fst (fst ?L)" unfolding eq by simp
    show ?thesis
      using all ne i cp unfolding e len
      by (intro exI [of _ infos] exI [of _ ks]) simp
  qed
qed

lemma monConfigs_nth:
  "k < nat (Size c) \<Longrightarrow>
     monConfigs env c ! k = \<lparr>MonName = ''mon'' @ Sprintf_d (int k), MonPort = MonitorPort env\<rparr>"
  by (simp add: monConfigs_def)

text \<open>
  C6, amended. With no pod running or pending, \<open>startPods\<close> on the monitor
  configurations mon0, mon1, ... built from \<open>Size\<close> issues, after the two listings,
  one round per configuration in that order: the create of its pod, then between 1 and
  15 attempts of the wait for that very pod, before the next create. There are exactly
  \<open>Size\<close> creates when \<open>startPods\<close> returns without error. The run is fixed round by
  round. On no configuration it ends after the two listings. When the run on mon0 up to
  mon(k-1) fails, the run on all the configurations is that very run, with the same error,
  cluster info, calls and world: \<open>startPods\<close> stops at the first create or wait that
  fails and creates nothing after it. When the run on mon0 up to mon(k-1) succeeds, the
  run up to mon(k) continues it by one round for mon(k), as \<open>oneRound\<close> describes it: a
  create that fails for another reason than AlreadyExists is followed by no wait, any
  other create by the wait for that pod.
\<close>

theorem startPods_fresh_creates_in_order:
  assumes "NodesList env (world st) = (Inr n, w1)"
    and "pollPods env c (Name ci) w1 = (Inr ([], []), w2)"
  shows "map MonName (monConfigs env c)
           = map (\<lambda>i. ''mon'' @ Sprintf_d (int i)) [0 ..< nat (Size c)] \<and>
         (\<exists>infos ks. length infos = length ks \<and> length ks \<le> nat (Size c) \<and>
            (0 < Size c \<longrightarrow> ks \<noteq> []) \<and>
            (fst (fst (startPods env c ci (monConfigs env c) st)) = None
               \<longrightarrow> length ks = nat (Size c) \<and> (\<forall>k\<in>set ks. 1 \<le> k)) \<and>
            (\<forall>k\<in>set ks. k \<le> 15) \<and>
            (\<forall>j. Suc j < length ks \<longrightarrow> 1 \<le> ks ! j) \<and>
            issued st (snd (startPods env c ci (monConfigs env c) st))
              = [NodesListCall, PollPodsCall (Namespace c) (Name ci)]
                @ concat (map (stepCalls env c (Size c \<le> int n))
                               (zip (monConfigs env c) (zip infos ks))) \<and>
            createdPods (issued st (snd (startPods env c ci (monConfigs env c) st)))
              = map (\<lambda>(m, info). makeMonPod env c m info (Size c \<le> int n))
                    (zip (monConfigs env c) infos)) \<and>
         startPods env c ci [] st
           = ((None, ci\<lparr>Monitors := Map.empty\<rparr>),
              \<lparr>world = w2,
               calls = calls st @ [NodesListCall, PollPodsCall (Namespace c) (Name ci)]\<rparr>) \<and>
         (Size c \<noteq> 0
            \<longrightarrow> (\<forall>k. fst (fst (startPods env c ci (take k (monConfigs env c)) st)) \<noteq> None
                  \<longrightarrow> startPods env c ci (monConfigs env c) st
                        = startPods env c ci (take k (monConfigs env c)) st)) \<and>
         (Size c \<noteq> 0
            \<longrightarrow> (\<forall>k info st'.
                  k < nat (Size c) \<and>
                  startPods env c ci (take k (monConfigs env c)) st = ((None, info), st')
                  \<longrightarrow> startPods env c ci (take (Suc k) (monConfigs env c)) st
                        = oneRound env c (Size c \<le> int n)
                            \<lparr>MonName = ''mon'' @ Sprintf_d (int k), MonPort = MonitorPort env\<rparr>
                            info st'))"
  (is "?names \<and> ?shape \<and> ?nil \<and> ?abort \<and> ?round")
proof -
  have s: "?names \<and> ?shape" by (rule startPods_fresh_calls_shape [OF assms])
  from s have a: ?names by (rule conjunct1)
  from s have b: ?shape by (rule conjunct2)
  have n: ?nil using startPods_nil [OF assms] by simp
  have ne: "int (length ([] :: Pod list)) \<noteq> Size c" if "Size c \<noteq> 0"
    using that by simp
  have ab: ?abort
    by (intro impI allI) (rule startPods_prefix_abort [OF assms ne]; assumption)
  have r: ?round
  proof (intro impI allI, elim conjE)
    fix k info st'
    assume z: "Size c \<noteq> 0" and k: "k < nat (Size c)"
      and p: "startPods env c ci (take k (monConfigs env c)) st = ((None, info), st')"
    from k have kl: "k < length (monConfigs env c)" by (simp add: monConfigs_def)
    show "startPods env c ci (take (Suc k) (monConfigs env c)) st
            = oneRound env c (Size c \<le> int n)
                \<lparr>MonName = ''mon'' @ Sprintf_d (int k), MonPort = MonitorPort env\<rparr> info st'"
      using startPods_round [OF assms ne [OF z] kl p] by (simp only: monConfigs_nth [OF k])
  qed
  show ?thesis by (intro conjI a b n ab r)
qed

theorem startPods_fresh_creates_in_order_witness:
  "map MonName (monConfigs demoEnv demoCluster) = [''mon0'', ''mon1'', ''mon2''] \<and>
   fst (fst (startPods demoEnv demoCluster demoInfo (monConfigs demoEnv demoCluster) st0)) = None \<and>
   (\<exists>infos. length infos = 3 \<and>
      createdPods (issued st0 (snd (startPods demoEnv demoCluster demoInfo
                                      (monConfigs demoEnv demoCluster) st0)))
        = map (\<lambda>(m, info). makeMonPod demoEnv demoCluster m info (Size demoCluster \<le> int 3))
            (zip (monConfigs demoEnv demoCluster) infos)) \<and>
   startPods demoEnv demoCluster demoInfo (take (Suc 0) (monConfigs demoEnv demoCluster)) st0
     = oneRound demoEnv demoCluster (Size demoCluster \<le> int 3)
         \<lparr>MonName = ''mon'' @ Sprintf_d (int 0), MonPort = MonitorPort demoEnv\<rparr>
         (demoInfo\<lparr>Monitors := Map.empty\<rparr>)
         \<lparr>world = (),
          calls = calls st0 @ [NodesListCall, PollPodsCall (Namespace demoCluster) (Name demoInfo)]\<rparr> \<and>
   fst (fst (startPods pendingEnv demoCluster demoInfo
               (take 1 (monConfigs pendingEnv demoCluster)) st0)) \<noteq> None \<and>
   startPods pendingEnv demoCluster demoInfo (monConfigs pendingEnv demoCluster) st0
     = startPods pendingEnv demoCluster demoInfo (take 1 (monConfigs pendingEnv demoCluster)) st0"
proof -
  have h1: "NodesList demoEnv (world st0) = (Inr 3, ())"
    by (simp add: demoEnv_def)
  have h2: "pollPods demoEnv demoCluster (Name demoInfo) () = (Inr ([], []), ())"
    by (simp add: demoEnv_def)
  have ok: "fst (fst (startPods demoEnv demoCluster demoInfo (monConfigs demoEnv demoCluster) st0)) = None"
    unfolding monConfigs_demo by (simp add: run_defs)
  have n: "nat (Size demoCluster) = 3" by (simp add: demoCluster_def)
  have z: "Size demoCluster \<noteq> 0" by (simp add: demoCluster_def)
  have names: "map MonName (monConfigs demoEnv demoCluster) = [''mon0'', ''mon1'', ''mon2'']"
    by (simp add: monConfigs_demo demoMons_def)
  note t = startPods_fresh_creates_in_order [OF h1 h2]
  have shape: "\<exists>infos. length infos = 3 \<and>
      createdPods (issued st0 (snd (startPods demoEnv demoCluster demoInfo
                                      (monConfigs demoEnv demoCluster) st0)))
        = map (\<lambda>(m, info). makeMonPod demoEnv demoCluster m info (Size demoCluster \<le> int 3))
            (zip (monConfigs demoEnv demoCluster) infos)"
    using t [THEN conjunct2, THEN conjunct1] ok unfolding n by auto
  have k: "0 < nat (Size demoCluster)" by (simp add: demoCluster_def)
  have first: "startPods demoEnv demoCluster demoInfo (take 0 (monConfigs demoEnv demoCluster)) st0
     = ((None, demoInfo\<lparr>Monitors := Map.empty\<rparr>),
        \<lparr>world = (),
         calls = calls st0 @ [NodesListCall, PollPodsCall (Namespace demoCluster) (Name demoInfo)]\<rparr>)"
    unfolding take_0 by (rule t [THEN conjunct2, THEN conjunct2, THEN conjunct1])
  have round: "startPods demoEnv demoCluster demoInfo (take (Suc 0) (monConfigs demoEnv demoCluster)) st0
     = oneRound demoEnv demoCluster (Size demoCluster \<le> int 3)
         \<lparr>MonName = ''mon'' @ Sprintf_d (int 0), MonPort = MonitorPort demoEnv\<rparr>
         (demoInfo\<lparr>Monitors := Map.empty\<rparr>)
         \<lparr>world = (),
          calls = calls st0 @ [NodesListCall, PollPodsCall (Namespace demoCluster) (Name demoInfo)]\<rparr>"
    by (rule t [THEN conjunct2, THEN conjunct2, THEN conjunct2, THEN conjunct2,
          rule_format, OF z conjI [OF k first]])
  have p1: "NodesList pendingEnv (world st0) = (Inr 3, ())"
    by (simp add: pendingEnv_def demoEnv_def)
  have p2: "pollPods pendingEnv demoCluster (Name demoInfo) () = (Inr ([], []), ())"
    by (simp add: pendingEnv_def demoEnv_def)
  have fails: "fst (fst (startPods pendingEnv demoCluster demoInfo
                 (take 1 (monConfigs pendingEnv demoCluster)) st0)) \<noteq> None"
    by (simp add: run_defs pendingEnv_def monConfigs_def Sprintf_d_def digits.simps upt_3)
  have abort: "startPods pendingEnv demoCluster demoInfo (monConfigs pendingEnv demoCluster) st0
     = startPods pendingEnv demoCluster demoInfo (take 1 (monConfigs pendingEnv demoCluster)) st0"
    by (rule startPods_fresh_creates_in_order [OF p1 p2,
          THEN conjunct2, THEN conjunct2, THEN conjunct2, THEN conjunct1,
          rule_format, OF z fails])
  show ?thesis by (intro conjI names ok shape round fails abort)
qed

subsection \<open>What startPods changes in the cluster info\<close>

text \<open>
  C3, as the claim states it, fails: a monitor entry that is present when \<open>startPods\<close>
  is called is gone when it returns.
\<close>

theorem startPods_discards_present_entries:
  "Monitors staleInfo ''mon9'' = Some (''mon9'', ''10.0.0.9'') \<and>
   fst (fst (startPods demoEnv demoCluster staleInfo demoMons st0)) = None \<and>
   Monitors (snd (fst (startPods demoEnv demoCluster staleInfo demoMons st0))) ''mon9'' = None"
  by (simp add: run_defs staleInfo_def)

lemma startPods_fields_and_keys:
  "Name (snd (fst (startPods env c ci mons st))) = Name ci \<and>
   FSID (snd (fst (startPods env c ci mons st))) = FSID ci \<and>
   MonitorSecret (snd (fst (startPods env c ci mons st))) = MonitorSecret ci \<and>
   AdminSecret (snd (fst (startPods env c ci mons st))) = AdminSecret ci \<and>
   (\<forall>n w1 running pending w2.
      NodesList env (world st) = (Inr n, w1) \<and>
      pollPods env c (Name ci) w1 = (Inr (running, pending), w2)
      \<longrightarrow> dom (Monitors (snd (fst (startPods env c ci mons st))))
            \<subseteq> PodName ` set running \<union> MonName ` set mons) \<and>
   (\<forall>e w1. NodesList env (world st) = (Inl e, w1)
      \<longrightarrow> Monitors (snd (fst (startPods env c ci mons st))) = Monitors ci) \<and>
   (\<forall>n w1 e w2.
      NodesList env (world st) = (Inr n, w1) \<and> pollPods env c (Name ci) w1 = (Inl e, w2)
      \<longrightarrow> Monitors (snd (fst (startPods env c ci mons st))) = Monitors ci)"
proof (intro conjI allI impI)
  fix n w1 running pending w2
  assume "NodesList env (world st) = (Inr n, w1) \<and>
          pollPods env c (Name ci) w1 = (Inr (running, pending), w2)"
  then show "dom (Monitors (snd (fst (startPods env c ci mons st))))
               \<subseteq> PodName ` set running \<union> MonName ` set mons"
    by (elim conjE) (rule startPods_dom)
qed (simp_all add: startPods_fields startPods_not_listed)

lemma startPods_monitors_rebuilt:
  assumes "NodesList env (world st) = (Inr n, w1)"
    and "pollPods env c (Name ci) w1 = (Inr (running, pending), w2)"
  shows "(\<forall>M. startPods env c (ci\<lparr>Monitors := M\<rparr>) mons st = startPods env c ci mons st) \<and>
         startPods env c ci [] st
           = ((None, ci\<lparr>Monitors := recordRunning env running Map.empty\<rparr>),
              \<lparr>world = w2,
               calls = calls st @ [NodesListCall, PollPodsCall (Namespace c) (Name ci)]\<rparr>) \<and>
         (int (length running) = Size c
            \<longrightarrow> dom (Monitors (snd (fst (startPods env c ci mons st)))) = PodName ` set running) \<and>
         (int (length running) \<noteq> Size c
            \<longrightarrow> (\<exists>j\<le>length mons.
                  dom (Monitors (snd (fst (startPods env c ci mons st))))
                    = PodName ` set running \<union> MonName ` set (take j mons) \<and>
                  (fst (fst (startPods env c ci mons st)) = None \<longrightarrow> j = length mons) \<and>
                  (fst (fst (startPods env c ci mons st)) \<noteq> None \<longrightarrow> j < length mons))) \<and>
         (int (length running) \<noteq> Size c
            \<longrightarrow> (\<forall>k. fst (fst (startPods env c ci (take k mons) st)) \<noteq> None
                  \<longrightarrow> startPods env c ci mons st = startPods env c ci (take k mons) st)) \<and>
         (int (length running) \<noteq> Size c
            \<longrightarrow> (\<forall>k info st'.
                  k < length mons \<and> startPods env c ci (take k mons) st = ((None, info), st')
                  \<longrightarrow> startPods env c ci (take (Suc k) mons) st
                        = oneRound env c (Size c \<le> int n) (mons ! k) info st'))"
  (is "?indep \<and> ?nil \<and> ?short \<and> ?keys \<and> ?abort \<and> ?round")
proof -
  have i: ?indep by (intro allI) (rule startPods_input_map_irrelevant [OF assms])
  have n: ?nil by (rule startPods_nil [OF assms])
  have s: ?short
    using startPods_listed [OF assms, of mons] by (simp add: dom_recordRunning)
  have k: ?keys by (intro impI) (rule startPods_dom_exact [OF assms])
  have ab: ?abort
    by (intro impI allI) (rule startPods_prefix_abort [OF assms]; assumption)
  have r: ?round
    by (intro impI allI, elim conjE) (rule startPods_round [OF assms]; assumption)
  show ?thesis by (intro conjI i n s k ab r)
qed

text \<open>
  C3, amended. \<open>startPods\<close> never changes the cluster name, the fsid, the monitor secret
  and the admin secret. It leaves the monitor map alone only when the listing of the
  nodes or of the pods fails. Once both have succeeded it rebuilds the map from nothing:
  its result (error, cluster info, calls and world) is the same whatever monitor map the
  cluster info held on entry, so the entries that were present are discarded. The new map
  holds the running pods when their number equals \<open>Size\<close> or there is no configuration.
  Otherwise its keys are the names of the running pods and of the first \<open>j\<close>
  configurations, all of them when \<open>startPods\<close> returns without error and fewer when it
  fails: the run on a prefix of the configurations that fails is the whole run, and a run
  that succeeds is continued by one round, as \<open>oneRound\<close> describes it, which adds the
  entry of the configuration only when the wait for its pod has returned an address.
\<close>

theorem startPods_frame:
  "Name (snd (fst (startPods env c ci mons st))) = Name ci \<and>
   FSID (snd (fst (startPods env c ci mons st))) = FSID ci \<and>
   MonitorSecret (snd (fst (startPods env c ci mons st))) = MonitorSecret ci \<and>
   AdminSecret (snd (fst (startPods env c ci mons st))) = AdminSecret ci \<and>
   (\<forall>n w1 running pending w2.
      NodesList env (world st) = (Inr n, w1) \<and>
      pollPods env c (Name ci) w1 = (Inr (running, pending), w2)
      \<longrightarrow> dom (Monitors (snd (fst (startPods env c ci mons st))))
            \<subseteq> PodName ` set running \<union> MonName ` set mons) \<and>
   (\<forall>e w1. NodesList env (world st) = (Inl e, w1)
      \<longrightarrow> Monitors (snd (fst (startPods env c ci mons st))) = Monitors ci) \<and>
   (\<forall>n w1 e w2.
      NodesList env (world st) = (Inr n, w1) \<and> pollPods env c (Name ci) w1 = (Inl e, w2)
      \<longrightarrow> Monitors (snd (fst (startPods env c ci mons st))) = Monitors ci) \<and>
   (\<forall>n w1 running pending w2.
      NodesList env (world st) = (Inr n, w1) \<and>
      pollPods env c (Name ci) w1 = (Inr (running, pending), w2)
      \<longrightarrow> (\<forall>M. startPods env c (ci\<lparr>Monitors := M\<rparr>) mons st = startPods env c ci mons st) \<and>
          startPods env c ci [] st
            = ((None, ci\<lparr>Monitors := recordRunning env running Map.empty\<rparr>),
               \<lparr>world = w2,
                calls = calls st @ [NodesListCall, PollPodsCall (Namespace c) (Name ci)]\<rparr>) \<and>
          (int (length running) = Size c
             \<longrightarrow> dom (Monitors (snd (fst (startPods env c ci mons st)))) = PodName ` set running) \<and>
          (int (length running) \<noteq> Size c
             \<longrightarrow> (\<exists>j\<le>length mons.
                   dom (Monitors (snd (fst (startPods env c ci mons st))))
                     = PodName ` set running \<union> MonName ` set (take j mons) \<and>
                   (fst (fst (startPods env c ci mons st)) = None \<longrightarrow> j = length mons) \<and>
                   (fst (fst (startPods env c ci mons st)) \<noteq> None \<longrightarrow> j < length mons))) \<and>
          (int (length running) \<noteq> Size c
             \<longrightarrow> (\<forall>k. fst (fst (startPods env c ci (take k mons) st)) \<noteq> None
                   \<longrightarrow> startPods env c ci mons st = startPods env c ci (take k mons) st)) \<and>
          (int (length running) \<noteq> Size c
             \<longrightarrow> (\<forall>k info st'.
                   k < length mons \<and> startPods env c ci (take k mons) st = ((None, info), st')
                   \<longrightarrow> startPods env c ci (take (Suc k) mons) st
                         = oneRound env c (Size c \<le> int n) (mons ! k) info st')))"
  (is "?f1 \<and> ?f2 \<and> ?f3 \<and> ?f4 \<and> ?bound \<and> ?nodes \<and> ?poll \<and> ?rebuilt")
proof -
  note old = startPods_fields_and_keys [of env c ci mons st]
  have f1: ?f1 by (rule old [THEN conjunct1])
  have f2: ?f2 by (rule old [THEN conjunct2, THEN conjunct1])
  have f3: ?f3 by (rule old [THEN conjunct2, THEN conjunct2, THEN conjunct1])
  have f4: ?f4 by (rule old [THEN conjunct2, THEN conjunct2, THEN conjunct2, THEN conjunct1])
  have b: ?bound
    by (rule old [THEN conjunct2, THEN conjunct2, THEN conjunct2, THEN conjunct2, THEN conjunct1])
  have nd: ?nodes
    by (rule old [THEN conjunct2, THEN conjunct2, THEN conjunct2, THEN conjunct2, THEN conjunct2,
          THEN conjunct1])
  have pl: ?poll
    by (rule old [THEN conjunct2, THEN conjunct2, THEN conjunct2, THEN conjunct2, THEN conjunct2,
          THEN conjunct2])
  have rb: ?rebuilt
    by (intro allI impI, elim conjE) (rule startPods_monitors_rebuilt; assumption)
  show ?thesis by (intro conjI f1 f2 f3 f4 b nd pl rb)
qed

theorem startPods_frame_witness:
  "Name (snd (fst (startPods demoEnv demoCluster staleInfo demoMons st0))) = ''rookcluster'' \<and>
   FSID (snd (fst (startPods demoEnv demoCluster staleInfo demoMons st0))) = ''f5d0'' \<and>
   MonitorSecret (snd (fst (startPods demoEnv demoCluster staleInfo demoMons st0))) = ''monkey'' \<and>
   AdminSecret (snd (fst (startPods demoEnv demoCluster staleInfo demoMons st0))) = ''adminkey'' \<and>
   startPods demoEnv demoCluster (staleInfo\<lparr>Monitors := Map.empty\<rparr>) demoMons st0
     = startPods demoEnv demoCluster staleInfo demoMons st0 \<and>
   dom (Monitors (snd (fst (startPods demoEnv demoCluster staleInfo demoMons st0))))
     = {''mon0'', ''mon1'', ''mon2''} \<and>
   fst (fst (startPods pendingEnv demoCluster staleInfo (take 1 demoMons) st0)) \<noteq> None \<and>
   startPods pendingEnv demoCluster staleInfo demoMons st0
     = startPods pendingEnv demoCluster staleInfo (take 1 demoMons) st0"
proof -
  note t = startPods_frame [of demoEnv demoCluster staleInfo demoMons st0]
  have h: "NodesList demoEnv (world st0) = (Inr 3, ()) \<and>
           pollPods demoEnv demoCluster (Name staleInfo) () = (Inr ([], []), ())"
    by (simp add: demoEnv_def)
  have ne: "int (length ([] :: Pod list)) \<noteq> Size demoCluster"
    by (simp add: demoCluster_def)
  have ok: "fst (fst (startPods demoEnv demoCluster staleInfo demoMons st0)) = None"
    by (simp add: run_defs staleInfo_def)
  note r = t [THEN conjunct2, THEN conjunct2, THEN conjunct2, THEN conjunct2, THEN conjunct2,
      THEN conjunct2, THEN conjunct2, rule_format, OF h]
  have indep: "startPods demoEnv demoCluster (staleInfo\<lparr>Monitors := Map.empty\<rparr>) demoMons st0
     = startPods demoEnv demoCluster staleInfo demoMons st0"
    by (rule r [THEN conjunct1, rule_format])
  from r [THEN conjunct2, THEN conjunct2, THEN conjunct2, THEN conjunct1, rule_format, OF ne]
  obtain j where j: "j \<le> length demoMons \<and>
      dom (Monitors (snd (fst (startPods demoEnv demoCluster staleInfo demoMons st0))))
        = PodName ` set ([] :: Pod list) \<union> MonName ` set (take j demoMons) \<and>
      (fst (fst (startPods demoEnv demoCluster staleInfo demoMons st0)) = None
         \<longrightarrow> j = length demoMons) \<and>
      (fst (fst (startPods demoEnv demoCluster staleInfo demoMons st0)) \<noteq> None
         \<longrightarrow> j < length demoMons)" ..
  with ok have keys: "dom (Monitors (snd (fst (startPods demoEnv demoCluster staleInfo demoMons st0))))
     = {''mon0'', ''mon1'', ''mon2''}"
    by (auto simp: demoMons_def)
  have fields: "Name (snd (fst (startPods demoEnv demoCluster staleInfo demoMons st0))) = ''rookcluster''"
    "FSID (snd (fst (startPods demoEnv demoCluster staleInfo demoMons st0))) = ''f5d0''"
    "MonitorSecret (snd (fst (startPods demoEnv demoCluster staleInfo demoMons st0))) = ''monkey''"
    "AdminSecret (snd (fst (startPods demoEnv demoCluster staleInfo demoMons st0))) = ''adminkey''"
    using t by (simp_all add: staleInfo_def demoInfo_def)
  have p: "NodesList pendingEnv (world st0) = (Inr 3, ()) \<and>
           pollPods pendingEnv demoCluster (Name staleInfo) () = (Inr ([], []), ())"
    by (simp add: pendingEnv_def demoEnv_def)
  have fails: "fst (fst (startPods pendingEnv demoCluster staleInfo (take 1 demoMons) st0)) \<noteq> None"
    by (simp add: run_defs pendingEnv_def staleInfo_def)
  have abort: "startPods pendingEnv demoCluster staleInfo demoMons st0
     = startPods pendingEnv demoCluster staleInfo (take 1 demoMons) st0"
    by (rule startPods_frame [of pendingEnv demoCluster staleInfo demoMons st0,
          THEN conjunct2, THEN conjunct2, THEN conjunct2, THEN conjunct2, THEN conjunct2,
          THEN conjunct2, THEN conjunct2, rule_format, OF p,
          THEN conjunct2, THEN conjunct2, THEN conjunct2, THEN conjunct2, THEN conjunct1,
          rule_format, OF ne fails])
  show ?thesis by (intro conjI fields indep keys fails abort)
qed

subsection \<open>The answer AlreadyExists\<close>

lemma waitLoop_PodsCreate_update:
  "15 - i = n \<Longrightarrow>
     waitLoop (env\<lparr>PodsCreate := f\<rparr>) c pod i st = waitLoop env c pod i st"
proof (induction n arbitrary: i st)
  case 0
  then have "\<not> i < 15" by simp
  then show ?case by (simp add: waitLoop_done)
next
  case (Suc n)
  then have lt: "i < 15" by simp
  have n: "15 - (i + 1) = n" using Suc.prems by simp
  let ?env = "env\<lparr>PodsCreate := f\<rparr>"
  obtain p e w where
    get: "PodsGet env (Namespace c) (PodName pod) (After env 6 (world st)) = ((p, e), w)"
    by (metis surj_pair)
  then have get': "PodsGet ?env (Namespace c) (PodName pod) (After ?env 6 (world st)) = ((p, e), w)"
    by simp
  show ?case
  proof (cases e)
    case (Some err)
    show ?thesis
      using waitLoop_step_failed [OF lt get [unfolded Some]]
        waitLoop_step_failed [OF lt get' [unfolded Some]] by simp
  next
    case None
    show ?thesis
    proof (cases "Phase p = PodRunning")
      case True
      show ?thesis
        using waitLoop_step_running [OF lt get [unfolded None] True]
          waitLoop_step_running [OF lt get' [unfolded None] True] by simp
    next
      case False
      show ?thesis
        using waitLoop_step_again [OF lt get [unfolded None] False]
          waitLoop_step_again [OF lt get' [unfolded None] False] Suc.IH [OF n] by simp
    qed
  qed
qed

lemma waitForPodToStart_PodsCreate_update:
  "waitForPodToStart (env\<lparr>PodsCreate := f\<rparr>) c pod st = waitForPodToStart env c pod st"
  by (simp add: waitForPodToStart_def waitLoop_PodsCreate_update [of 0 15])

lemma startLoop_tolerant:
  fixes env :: "('w, 'm) Collaborators"
  defines "env' \<equiv> env\<lparr>PodsCreate := \<lambda>ns pod w. alreadyExistsAsSuccess (PodsCreate env ns pod w)\<rparr>"
  shows "fst (fst (startLoop env' c aa mons ci s' a' st)) = fst (fst (startLoop env c aa mons ci s a st)) \<and>
         fst (snd (fst (startLoop env' c aa mons ci s' a' st)))
           = fst (snd (fst (startLoop env c aa mons ci s a st))) \<and>
         snd (startLoop env' c aa mons ci s' a' st) = snd (startLoop env c aa mons ci s a st)"
proof (induction mons arbitrary: ci s a s' a' st)
  case Nil
  show ?case by simp
next
  case (Cons m mons)
  have mk: "makeMonPod env' c m ci aa = makeMonPod env c m ci aa" by (simp add: env'_def)
  have tc: "ToCephMon env' = ToCephMon env" by (simp add: env'_def)
  let ?pod = "makeMonPod env c m ci aa"
  obtain created w where
    cr: "PodsCreate env (Namespace c) ?pod (world st) = (created, w)" by (metis surj_pair)
  let ?st1 = "\<lparr>world = w, calls = calls st @ [PodsCreateCall (Namespace c) ?pod]\<rparr>"
  have wt: "waitForPodToStart env' c ?pod ?st1 = waitForPodToStart env c ?pod ?st1"
    unfolding env'_def by (rule waitForPodToStart_PodsCreate_update)
  show ?case
  proof (cases "created = None \<or> created = Some AlreadyExists")
    case False
    then obtain err where e: "created = Some err" "err \<noteq> AlreadyExists" by auto
    have cr': "PodsCreate env' (Namespace c) (makeMonPod env' c m ci aa) (world st) = (Some err, w)"
      using cr e by (simp add: env'_def alreadyExistsAsSuccess_def)
    show ?thesis
      unfolding startLoop_create_fatal [OF cr [unfolded e(1)] e(2)]
        startLoop_create_fatal [OF cr' e(2)] mk by simp
  next
    case True
    have cr': "PodsCreate env' (Namespace c) (makeMonPod env' c m ci aa) (world st) = (None, w)"
      using cr True by (auto simp: env'_def alreadyExistsAsSuccess_def)
    note u = startLoop_create_tolerated [OF cr True, of mons s a]
    note u' = startLoop_create_tolerated [OF cr', of mons s' a', unfolded mk wt tc, simplified]
    obtain r st2 where w: "waitForPodToStart env c ?pod ?st1 = (r, st2)" by (metis surj_pair)
    show ?thesis
    proof (cases r)
      case (Inl e)
      show ?thesis unfolding u u' w Inl by simp
    next
      case (Inr podIP)
      show ?thesis unfolding u u' w Inr using Cons.IH by simp
    qed
  qed
qed

lemma startPods_tolerant:
  "startPods (env\<lparr>PodsCreate := \<lambda>ns pod w. alreadyExistsAsSuccess (PodsCreate env ns pod w)\<rparr>)
     c ci mons st = startPods env c ci mons st"
proof (cases rule: startPods_cases [where env = env and st = st and c = c and ci = ci])
  case (nodes e w1)
  then show ?thesis by (simp add: startPods_not_listed)
next
  case (poll n w1 e w2)
  then show ?thesis by (simp add: startPods_not_listed)
next
  case (listed n w1 running pending w2)
  let ?env = "env\<lparr>PodsCreate := \<lambda>ns pod w. alreadyExistsAsSuccess (PodsCreate env ns pod w)\<rparr>"
  have l': "NodesList ?env (world st) = (Inr n, w1)"
    "pollPods ?env c (Name ci) w1 = (Inr (running, pending), w2)"
    using listed by simp_all
  have rr: "recordRunning ?env running M = recordRunning env running M" for M
    by (induction running arbitrary: M) simp_all
  show ?thesis
    unfolding startPods_listed [OF listed] startPods_listed [OF l'] rr Let_def
    using startLoop_tolerant [of env c "Size c \<le> int n" mons _ 0 0 _ 0 0]
    by simp
qed

lemma startLoop_no_AlreadyExists_failure:
  "fst (fst (startLoop env c aa mons ci s a st)) \<noteq> Some (FailedCreateMonPod ns AlreadyExists)"
proof (induction mons arbitrary: ci s a st)
  case Nil
  show ?case by simp
next
  case (Cons m mons)
  let ?pod = "makeMonPod env c m ci aa"
  obtain created w where
    cr: "PodsCreate env (Namespace c) ?pod (world st) = (created, w)" by (metis surj_pair)
  let ?st1 = "\<lparr>world = w, calls = calls st @ [PodsCreateCall (Namespace c) ?pod]\<rparr>"
  show ?case
  proof (cases "created = None \<or> created = Some AlreadyExists")
    case False
    then obtain err where e: "created = Some err" "err \<noteq> AlreadyExists" by auto
    show ?thesis
      unfolding startLoop_create_fatal [OF cr [unfolded e(1)] e(2)] using e(2) by simp
  next
    case True
    note u = startLoop_create_tolerated [OF cr True, of mons s a]
    obtain r st2 where w: "waitForPodToStart env c ?pod ?st1 = (r, st2)" by (metis surj_pair)
    show ?thesis
    proof (cases r)
      case (Inl e)
      show ?thesis unfolding u w Inl by simp
    next
      case (Inr podIP)
      show ?thesis unfolding u w Inr using Cons.IH by simp
    qed
  qed
qed

lemma startPods_no_AlreadyExists_failure:
  "fst (fst (startPods env c ci mons st)) \<noteq> Some (FailedCreateMonPod ns AlreadyExists)"
proof (cases rule: startPods_cases [where env = env and st = st and c = c and ci = ci])
  case (nodes e w1)
  then show ?thesis by (simp add: startPods_not_listed)
next
  case (poll n w1 e w2)
  then show ?thesis by (simp add: startPods_not_listed)
next
  case (listed n w1 running pending w2)
  show ?thesis
    unfolding startPods_listed [OF listed] Let_def
    by (simp add: startLoop_no_AlreadyExists_failure)
qed

lemma createMonSecretsAndSave_tolerant:
  "createMonSecretsAndSave
     (env\<lparr>SecretsCreate := \<lambda>ns secret w.
        if SecretName secret = ''rook-admin''
        then alreadyExistsAsSuccess (SecretsCreate env ns secret w)
        else SecretsCreate env ns secret w\<rparr>) c st
   = createMonSecretsAndSave env c st"
  by (auto simp: createMonSecretsAndSave_def secretsCreate_def createClusterInfo_def issue_def
      alreadyExistsAsSuccess_def appName_def IsKubernetesResourceAlreadyExistError_def Let_def
      split: prod.splits sum.splits option.splits)

lemma createMonSecretsAndSave_no_AlreadyExists_failure:
  "fst (createMonSecretsAndSave env c st) \<noteq> Inl (FailedSaveRookAdminSecret AlreadyExists)"
  by (auto simp: createMonSecretsAndSave_def secretsCreate_def createClusterInfo_def issue_def
      IsKubernetesResourceAlreadyExistError_def Let_def
      split: prod.splits sum.splits option.splits)

lemma createMonSecretsAndSave_primary_fails:
  assumes "CreateClusterInfo env (world st) = (Inr info, w1)"
    and "SecretsCreate env (Namespace c)
           \<lparr>SecretName = appName, Data = Map.empty,
            StringData = [clusterSecretName \<mapsto> Name info, fsidSecretName \<mapsto> FSID info,
                          monSecretName \<mapsto> MonitorSecret info,
                          adminSecretName \<mapsto> AdminSecret info],
            SecretType = RookType env\<rparr> w1 = (Some err, w2)"
  shows "fst (createMonSecretsAndSave env c st) = Inl (FailedSaveMonSecrets err)"
  using assms
  by (simp add: createMonSecretsAndSave_def secretsCreate_def createClusterInfo_def issue_def Let_def)

lemma createMonSecretsAndSave_primary_fails_state:
  assumes "CreateClusterInfo env (world st) = (Inr info, w1)"
    and "SecretsCreate env (Namespace c)
           \<lparr>SecretName = appName, Data = Map.empty,
            StringData = [clusterSecretName \<mapsto> Name info, fsidSecretName \<mapsto> FSID info,
                          monSecretName \<mapsto> MonitorSecret info,
                          adminSecretName \<mapsto> AdminSecret info],
            SecretType = RookType env\<rparr> w1 = (Some err, w2)"
  shows "createMonSecretsAndSave env c st =
           (Inl (FailedSaveMonSecrets err),
            \<lparr>world = w2,
             calls = calls st @ [CreateClusterInfoCall,
               SecretsCreateCall (Namespace c)
                 \<lparr>SecretName = appName, Data = Map.empty,
                  StringData = [clusterSecretName \<mapsto> Name info, fsidSecretName \<mapsto> FSID info,
                                monSecretName \<mapsto> MonitorSecret info,
                                adminSecretName \<mapsto> AdminSecret info],
                  SecretType = RookType env\<rparr>]\<rparr>)"
  using assms
  by (simp add: createMonSecretsAndSave_def secretsCreate_def createClusterInfo_def issue_def Let_def)

lemma createMonSecretsAndSave_secondary_exists:
  assumes "CreateClusterInfo env (world st) = (Inr info, w1)"
    and "SecretsCreate env (Namespace c)
           \<lparr>SecretName = appName, Data = Map.empty,
            StringData = [clusterSecretName \<mapsto> Name info, fsidSecretName \<mapsto> FSID info,
                          monSecretName \<mapsto> MonitorSecret info,
                          adminSecretName \<mapsto> AdminSecret info],
            SecretType = RookType env\<rparr> w1 = (None, w2)"
    and "SecretsCreate env (Namespace c)
           \<lparr>SecretName = ''rook-admin'', Data = Map.empty,
            StringData = [''key'' \<mapsto> AdminSecret info], SecretType = RbdType env\<rparr> w2
           = (Some AlreadyExists, w3)"
  shows "createMonSecretsAndSave env c st =
           (Inr info,
            \<lparr>world = w3,
             calls = calls st @ [CreateClusterInfoCall,
               SecretsCreateCall (Namespace c)
                 \<lparr>SecretName = appName, Data = Map.empty,
                  StringData = [clusterSecretName \<mapsto> Name info, fsidSecretName \<mapsto> FSID info,
                                monSecretName \<mapsto> MonitorSecret info,
                                adminSecretName \<mapsto> AdminSecret info],
                  SecretType = RookType env\<rparr>,
               SecretsCreateCall (Namespace c)
                 \<lparr>SecretName = ''rook-admin'', Data = Map.empty,
                  StringData = [''key'' \<mapsto> AdminSecret info], SecretType = RbdType env\<rparr>]\<rparr>)"
  using assms
  by (simp add: createMonSecretsAndSave_def secretsCreate_def createClusterInfo_def issue_def Let_def
      IsKubernetesResourceAlreadyExistError_def)

lemma Start_primary_fails:
  assumes "SecretsGet env (Namespace c) appName (world st) = (Inl NotFound, w0)"
    and "CreateClusterInfo env w0 = (Inr info, w1)"
    and "SecretsCreate env (Namespace c)
           \<lparr>SecretName = appName, Data = Map.empty,
            StringData = [clusterSecretName \<mapsto> Name info, fsidSecretName \<mapsto> FSID info,
                          monSecretName \<mapsto> MonitorSecret info,
                          adminSecretName \<mapsto> AdminSecret info],
            SecretType = RookType env\<rparr> w1 = (Some err, w2)"
  shows "initClusterInfo env c st =
           (Inl (FailedSaveMonSecrets err),
            \<lparr>world = w2,
             calls = calls st @ [SecretsGetCall (Namespace c) appName, CreateClusterInfoCall,
               SecretsCreateCall (Namespace c)
                 \<lparr>SecretName = appName, Data = Map.empty,
                  StringData = [clusterSecretName \<mapsto> Name info, fsidSecretName \<mapsto> FSID info,
                                monSecretName \<mapsto> MonitorSecret info,
                                adminSecretName \<mapsto> AdminSecret info],
                  SecretType = RookType env\<rparr>]\<rparr>)"
    and "Start env c st =
           (Inl (FailedInitClusterInfo (FailedSaveMonSecrets err)),
            \<lparr>world = w2,
             calls = calls st @ [SecretsGetCall (Namespace c) appName, CreateClusterInfoCall,
               SecretsCreateCall (Namespace c)
                 \<lparr>SecretName = appName, Data = Map.empty,
                  StringData = [clusterSecretName \<mapsto> Name info, fsidSecretName \<mapsto> FSID info,
                                monSecretName \<mapsto> MonitorSecret info,
                                adminSecretName \<mapsto> AdminSecret info],
                  SecretType = RookType env\<rparr>]\<rparr>)"
proof -
  let ?st0 = "\<lparr>world = w0, calls = calls st @ [SecretsGetCall (Namespace c) appName]\<rparr>"
  have g: "secretsGet env (Namespace c) appName st = (Inl NotFound, ?st0)"
    using assms(1) by (simp add: secretsGet_def issue_def)
  have c0: "CreateClusterInfo env (world ?st0) = (Inr info, w1)" using assms(2) by simp
  show i: "initClusterInfo env c st =
           (Inl (FailedSaveMonSecrets err),
            \<lparr>world = w2,
             calls = calls st @ [SecretsGetCall (Namespace c) appName, CreateClusterInfoCall,
               SecretsCreateCall (Namespace c)
                 \<lparr>SecretName = appName, Data = Map.empty,
                  StringData = [clusterSecretName \<mapsto> Name info, fsidSecretName \<mapsto> FSID info,
                                monSecretName \<mapsto> MonitorSecret info,
                                adminSecretName \<mapsto> AdminSecret info],
                  SecretType = RookType env\<rparr>]\<rparr>)"
    unfolding initClusterInfo_def g
    by (simp add: IsKubernetesResourceNotFoundError_def
        createMonSecretsAndSave_primary_fails_state [OF c0 assms(3)])
  show "Start env c st =
           (Inl (FailedInitClusterInfo (FailedSaveMonSecrets err)),
            \<lparr>world = w2,
             calls = calls st @ [SecretsGetCall (Namespace c) appName, CreateClusterInfoCall,
               SecretsCreateCall (Namespace c)
                 \<lparr>SecretName = appName, Data = Map.empty,
                  StringData = [clusterSecretName \<mapsto> Name info, fsidSecretName \<mapsto> FSID info,
                                monSecretName \<mapsto> MonitorSecret info,
                                adminSecretName \<mapsto> AdminSecret info],
                  SecretType = RookType env\<rparr>]\<rparr>)"
    unfolding Start_def i by simp
qed

lemma startPods_round_exists:
  assumes "NodesList env (world st) = (Inr n, w1)"
    and "pollPods env c (Name ci) w1 = (Inr (running, pending), w2)"
    and "int (length running) \<noteq> Size c"
    and "k < length mons"
    and "startPods env c ci (take k mons) st = ((None, info), st')"
    and "PodsCreate env (Namespace c) (makeMonPod env c (mons ! k) info (Size c \<le> int n)) (world st')
           = (Some AlreadyExists, w)"
  shows "startPods env c ci (take (Suc k) mons) st =
     (case waitForPodToStart env c (makeMonPod env c (mons ! k) info (Size c \<le> int n))
             \<lparr>world = w,
              calls = calls st' @ [PodsCreateCall (Namespace c)
                                    (makeMonPod env c (mons ! k) info (Size c \<le> int n))]\<rparr> of
        (Inl err, st2) \<Rightarrow>
          ((Some (FailedStartPod (PodName (makeMonPod env c (mons ! k) info (Size c \<le> int n))) err),
            info), st2)
      | (Inr podIP, st2) \<Rightarrow>
          ((None, info\<lparr>Monitors :=
              (Monitors info)(MonName (mons ! k) \<mapsto> ToCephMon env (MonName (mons ! k)) podIP)\<rparr>),
           st2))"
  unfolding startPods_round [OF assms(1-5)] oneRound_def using assms(6) by (simp add: Let_def)

text \<open>
  C1, as the claim states it, fails for the first create: when the create of the secret
  of the monitors answers AlreadyExists, \<open>Start\<close> returns that failure to its caller.
\<close>

theorem primary_create_already_exists_fails:
  "fst (Start raceEnv demoCluster st0)
     = Inl (FailedInitClusterInfo (FailedSaveMonSecrets AlreadyExists))"
  by (simp add: Start_def initClusterInfo_def createMonSecretsAndSave_def secretsGet_def
      secretsCreate_def createClusterInfo_def run_defs raceEnv_def appName_def)

text \<open>
  C1, amended. The answer AlreadyExists is treated as success by two of the three
  creates. For the pods, \<open>startPods\<close> returns the same error, cluster info and state
  whether a create answers AlreadyExists or success, and never returns the failure of a
  create caused by AlreadyExists; in a run that has succeeded so far, a create that answers
  AlreadyExists is followed by the wait for that pod. For the secret rook-admin the same
  holds of \<open>createMonSecretsAndSave\<close>, which then returns the cluster info after its three
  calls. The create of the secret of the monitors is not tolerant: when it fails, with
  AlreadyExists or any other error, \<open>createMonSecretsAndSave\<close> returns the failure to
  save the monitor secrets after that create and issues no other call, so the secret
  rook-admin is not created; \<open>initClusterInfo\<close>, entered when the secret is not found,
  returns that failure after the lookup, the generation and that create, and \<open>Start\<close>
  returns it to its caller without listing or creating anything.
\<close>

theorem already_exists_tolerated_except_primary:
  "startPods (env\<lparr>PodsCreate := \<lambda>ns pod w. alreadyExistsAsSuccess (PodsCreate env ns pod w)\<rparr>)
     c ci mons st = startPods env c ci mons st \<and>
   fst (fst (startPods env c ci mons st)) \<noteq> Some (FailedCreateMonPod ns AlreadyExists) \<and>
   createMonSecretsAndSave
     (env\<lparr>SecretsCreate := \<lambda>ns secret w.
        if SecretName secret = ''rook-admin''
        then alreadyExistsAsSuccess (SecretsCreate env ns secret w)
        else SecretsCreate env ns secret w\<rparr>) c st
     = createMonSecretsAndSave env c st \<and>
   fst (createMonSecretsAndSave env c st) \<noteq> Inl (FailedSaveRookAdminSecret AlreadyExists) \<and>
   (\<forall>info w1 err w2.
      CreateClusterInfo env (world st) = (Inr info, w1) \<and>
      SecretsCreate env (Namespace c)
        \<lparr>SecretName = appName, Data = Map.empty,
         StringData = [clusterSecretName \<mapsto> Name info, fsidSecretName \<mapsto> FSID info,
                       monSecretName \<mapsto> MonitorSecret info,
                       adminSecretName \<mapsto> AdminSecret info],
         SecretType = RookType env\<rparr> w1 = (Some err, w2)
      \<longrightarrow> createMonSecretsAndSave env c st =
            (Inl (FailedSaveMonSecrets err),
             \<lparr>world = w2,
              calls = calls st @ [CreateClusterInfoCall,
                SecretsCreateCall (Namespace c)
                  \<lparr>SecretName = appName, Data = Map.empty,
                   StringData = [clusterSecretName \<mapsto> Name info, fsidSecretName \<mapsto> FSID info,
                                 monSecretName \<mapsto> MonitorSecret info,
                                 adminSecretName \<mapsto> AdminSecret info],
                   SecretType = RookType env\<rparr>]\<rparr>)) \<and>
   (\<forall>w0 info w1 err w2.
      SecretsGet env (Namespace c) appName (world st) = (Inl NotFound, w0) \<and>
      CreateClusterInfo env w0 = (Inr info, w1) \<and>
      SecretsCreate env (Namespace c)
        \<lparr>SecretName = appName, Data = Map.empty,
         StringData = [clusterSecretName \<mapsto> Name info, fsidSecretName \<mapsto> FSID info,
                       monSecretName \<mapsto> MonitorSecret info,
                       adminSecretName \<mapsto> AdminSecret info],
         SecretType = RookType env\<rparr> w1 = (Some err, w2)
      \<longrightarrow> initClusterInfo env c st =
            (Inl (FailedSaveMonSecrets err),
             \<lparr>world = w2,
              calls = calls st @ [SecretsGetCall (Namespace c) appName, CreateClusterInfoCall,
                SecretsCreateCall (Namespace c)
                  \<lparr>SecretName = appName, Data = Map.empty,
                   StringData = [clusterSecretName \<mapsto> Name info, fsidSecretName \<mapsto> FSID info,
                                 monSecretName \<mapsto> MonitorSecret info,
                                 adminSecretName \<mapsto> AdminSecret info],
                   SecretType = RookType env\<rparr>]\<rparr>) \<and>
          Start env c st =
            (Inl (FailedInitClusterInfo (FailedSaveMonSecrets err)),
             \<lparr>world = w2,
              calls = calls st @ [SecretsGetCall (Namespace c) appName, CreateClusterInfoCall,
                SecretsCreateCall (Namespace c)
                  \<lparr>SecretName = appName, Data = Map.empty,
                   StringData = [clusterSecretName \<mapsto> Name info, fsidSecretName \<mapsto> FSID info,
                                 monSecretName \<mapsto> MonitorSecret info,
                                 adminSecretName \<mapsto> AdminSecret info],
                   SecretType = RookType env\<rparr>]\<rparr>)) \<and>
   (\<forall>info w1 w2 w3.
      CreateClusterInfo env (world st) = (Inr info, w1) \<and>
      SecretsCreate env (Namespace c)
        \<lparr>SecretName = appName, Data = Map.empty,
         StringData = [clusterSecretName \<mapsto> Name info, fsidSecretName \<mapsto> FSID info,
                       monSecretName \<mapsto> MonitorSecret info,
                       adminSecretName \<mapsto> AdminSecret info],
         SecretType = RookType env\<rparr> w1 = (None, w2) \<and>
      SecretsCreate env (Namespace c)
        \<lparr>SecretName = ''rook-admin'', Data = Map.empty,
         StringData = [''key'' \<mapsto> AdminSecret info], SecretType = RbdType env\<rparr> w2
        = (Some AlreadyExists, w3)
      \<longrightarrow> createMonSecretsAndSave env c st =
            (Inr info,
             \<lparr>world = w3,
              calls = calls st @ [CreateClusterInfoCall,
                SecretsCreateCall (Namespace c)
                  \<lparr>SecretName = appName, Data = Map.empty,
                   StringData = [clusterSecretName \<mapsto> Name info, fsidSecretName \<mapsto> FSID info,
                                 monSecretName \<mapsto> MonitorSecret info,
                                 adminSecretName \<mapsto> AdminSecret info],
                   SecretType = RookType env\<rparr>,
                SecretsCreateCall (Namespace c)
                  \<lparr>SecretName = ''rook-admin'', Data = Map.empty,
                   StringData = [''key'' \<mapsto> AdminSecret info], SecretType = RbdType env\<rparr>]\<rparr>)) \<and>
   (\<forall>n w1 running pending w2 k info st' w.
      NodesList env (world st) = (Inr n, w1) \<and>
      pollPods env c (Name ci) w1 = (Inr (running, pending), w2) \<and>
      int (length running) \<noteq> Size c \<and> k < length mons \<and>
      startPods env c ci (take k mons) st = ((None, info), st') \<and>
      PodsCreate env (Namespace c) (makeMonPod env c (mons ! k) info (Size c \<le> int n)) (world st')
        = (Some AlreadyExists, w)
      \<longrightarrow> startPods env c ci (take (Suc k) mons) st =
            (case waitForPodToStart env c (makeMonPod env c (mons ! k) info (Size c \<le> int n))
                    \<lparr>world = w,
                     calls = calls st' @ [PodsCreateCall (Namespace c)
                                           (makeMonPod env c (mons ! k) info (Size c \<le> int n))]\<rparr> of
               (Inl err, st2) \<Rightarrow>
                 ((Some (FailedStartPod
                           (PodName (makeMonPod env c (mons ! k) info (Size c \<le> int n))) err),
                   info), st2)
             | (Inr podIP, st2) \<Rightarrow>
                 ((None, info\<lparr>Monitors :=
                     (Monitors info)(MonName (mons ! k) \<mapsto> ToCephMon env (MonName (mons ! k)) podIP)\<rparr>),
                  st2)))"
  (is "?pods \<and> ?podsNever \<and> ?admin \<and> ?adminNever \<and> ?primary \<and> ?resolve \<and> ?adminExists
         \<and> ?podExists")
proof -
  have a: ?pods by (rule startPods_tolerant)
  have b: ?podsNever by (rule startPods_no_AlreadyExists_failure)
  have c: ?admin by (rule createMonSecretsAndSave_tolerant)
  have d: ?adminNever by (rule createMonSecretsAndSave_no_AlreadyExists_failure)
  have e: ?primary
    by (intro allI impI, elim conjE)
      (rule createMonSecretsAndSave_primary_fails_state; assumption)
  have f: ?resolve
    by (intro allI impI conjI; elim conjE)
      ((rule Start_primary_fails(1); assumption), (rule Start_primary_fails(2); assumption))
  have g: ?adminExists
    by (intro allI impI, elim conjE)
      (rule createMonSecretsAndSave_secondary_exists; assumption)
  have h: ?podExists
    by (intro allI impI, elim conjE) (rule startPods_round_exists; assumption)
  show ?thesis by (intro conjI a b c d e f g h)
qed

theorem already_exists_tolerated_except_primary_witness:
  "fst (fst (startPods existsEnv demoCluster demoInfo demoMons st0)) = None \<and>
   startPods existsEnv demoCluster demoInfo demoMons st0
     = startPods (existsEnv\<lparr>PodsCreate := \<lambda>ns pod w. (None, w)\<rparr>) demoCluster demoInfo demoMons st0 \<and>
   createMonSecretsAndSave existsEnv demoCluster st0
     = (Inr demoInfo,
        \<lparr>world = (),
         calls = calls st0 @ [CreateClusterInfoCall,
           SecretsCreateCall (Namespace demoCluster)
             \<lparr>SecretName = appName, Data = Map.empty,
              StringData = [clusterSecretName \<mapsto> Name demoInfo, fsidSecretName \<mapsto> FSID demoInfo,
                            monSecretName \<mapsto> MonitorSecret demoInfo,
                            adminSecretName \<mapsto> AdminSecret demoInfo],
              SecretType = RookType existsEnv\<rparr>,
           SecretsCreateCall (Namespace demoCluster)
             \<lparr>SecretName = ''rook-admin'', Data = Map.empty,
              StringData = [''key'' \<mapsto> AdminSecret demoInfo],
              SecretType = RbdType existsEnv\<rparr>]\<rparr>) \<and>
   Start raceEnv demoCluster st0
     = (Inl (FailedInitClusterInfo (FailedSaveMonSecrets AlreadyExists)),
        \<lparr>world = (),
         calls = calls st0 @ [SecretsGetCall (Namespace demoCluster) appName, CreateClusterInfoCall,
           SecretsCreateCall (Namespace demoCluster)
             \<lparr>SecretName = appName, Data = Map.empty,
              StringData = [clusterSecretName \<mapsto> Name demoInfo, fsidSecretName \<mapsto> FSID demoInfo,
                            monSecretName \<mapsto> MonitorSecret demoInfo,
                            adminSecretName \<mapsto> AdminSecret demoInfo],
              SecretType = RookType raceEnv\<rparr>]\<rparr>) \<and>
   fst (fst (startPods existsEnv demoCluster demoInfo (take (Suc 0) demoMons) st0)) = None"
proof -
  note t = already_exists_tolerated_except_primary
  have e: "existsEnv\<lparr>PodsCreate := \<lambda>ns pod w. alreadyExistsAsSuccess (PodsCreate existsEnv ns pod w)\<rparr>
             = existsEnv\<lparr>PodsCreate := \<lambda>ns pod w. (None, w)\<rparr>"
    by (simp add: existsEnv_def demoEnv_def alreadyExistsAsSuccess_def)
  have a: "startPods existsEnv demoCluster demoInfo demoMons st0
     = startPods (existsEnv\<lparr>PodsCreate := \<lambda>ns pod w. (None, w)\<rparr>) demoCluster demoInfo demoMons st0"
    using t [of existsEnv demoCluster demoInfo demoMons st0, THEN conjunct1] unfolding e by simp
  have b: "fst (fst (startPods existsEnv demoCluster demoInfo demoMons st0)) = None"
    by (simp add: run_defs existsEnv_def)
  have s: "CreateClusterInfo existsEnv (world st0) = (Inr demoInfo, ()) \<and>
      SecretsCreate existsEnv (Namespace demoCluster)
        \<lparr>SecretName = appName, Data = Map.empty,
         StringData = [clusterSecretName \<mapsto> Name demoInfo, fsidSecretName \<mapsto> FSID demoInfo,
                       monSecretName \<mapsto> MonitorSecret demoInfo,
                       adminSecretName \<mapsto> AdminSecret demoInfo],
         SecretType = RookType existsEnv\<rparr> () = (None, ()) \<and>
      SecretsCreate existsEnv (Namespace demoCluster)
        \<lparr>SecretName = ''rook-admin'', Data = Map.empty,
         StringData = [''key'' \<mapsto> AdminSecret demoInfo], SecretType = RbdType existsEnv\<rparr> ()
        = (Some AlreadyExists, ())"
    by (simp add: existsEnv_def demoEnv_def appName_def)
  have c: "createMonSecretsAndSave existsEnv demoCluster st0
     = (Inr demoInfo,
        \<lparr>world = (),
         calls = calls st0 @ [CreateClusterInfoCall,
           SecretsCreateCall (Namespace demoCluster)
             \<lparr>SecretName = appName, Data = Map.empty,
              StringData = [clusterSecretName \<mapsto> Name demoInfo, fsidSecretName \<mapsto> FSID demoInfo,
                            monSecretName \<mapsto> MonitorSecret demoInfo,
                            adminSecretName \<mapsto> AdminSecret demoInfo],
              SecretType = RookType existsEnv\<rparr>,
           SecretsCreateCall (Namespace demoCluster)
             \<lparr>SecretName = ''rook-admin'', Data = Map.empty,
              StringData = [''key'' \<mapsto> AdminSecret demoInfo],
              SecretType = RbdType existsEnv\<rparr>]\<rparr>)"
    by (rule t [of existsEnv demoCluster demoInfo demoMons st0,
          THEN conjunct2, THEN conjunct2, THEN conjunct2, THEN conjunct2, THEN conjunct2,
          THEN conjunct2, THEN conjunct1, rule_format, OF s])
  have h: "SecretsGet raceEnv (Namespace demoCluster) appName (world st0) = (Inl NotFound, ()) \<and>
      CreateClusterInfo raceEnv () = (Inr demoInfo, ()) \<and>
      SecretsCreate raceEnv (Namespace demoCluster)
        \<lparr>SecretName = appName, Data = Map.empty,
         StringData = [clusterSecretName \<mapsto> Name demoInfo, fsidSecretName \<mapsto> FSID demoInfo,
                       monSecretName \<mapsto> MonitorSecret demoInfo,
                       adminSecretName \<mapsto> AdminSecret demoInfo],
         SecretType = RookType raceEnv\<rparr> () = (Some AlreadyExists, ())"
    by (simp add: raceEnv_def demoEnv_def appName_def)
  have d: "Start raceEnv demoCluster st0
     = (Inl (FailedInitClusterInfo (FailedSaveMonSecrets AlreadyExists)),
        \<lparr>world = (),
         calls = calls st0 @ [SecretsGetCall (Namespace demoCluster) appName, CreateClusterInfoCall,
           SecretsCreateCall (Namespace demoCluster)
             \<lparr>SecretName = appName, Data = Map.empty,
              StringData = [clusterSecretName \<mapsto> Name demoInfo, fsidSecretName \<mapsto> FSID demoInfo,
                            monSecretName \<mapsto> MonitorSecret demoInfo,
                            adminSecretName \<mapsto> AdminSecret demoInfo],
              SecretType = RookType raceEnv\<rparr>]\<rparr>)"
    by (rule t [of raceEnv demoCluster demoInfo demoMons st0,
          THEN conjunct2, THEN conjunct2, THEN conjunct2, THEN conjunct2, THEN conjunct2,
          THEN conjunct1, rule_format, OF h, THEN conjunct2])
  have p: "NodesList existsEnv (world st0) = (Inr 3, ()) \<and>
      pollPods existsEnv demoCluster (Name demoInfo) () = (Inr ([], []), ()) \<and>
      int (length ([] :: Pod list)) \<noteq> Size demoCluster \<and> 0 < length demoMons \<and>
      startPods existsEnv demoCluster demoInfo (take 0 demoMons) st0
        = ((None, demoInfo),
           \<lparr>world = (), calls = [NodesListCall, PollPodsCall ''rook'' ''rookcluster'']\<rparr>) \<and>
      PodsCreate existsEnv (Namespace demoCluster)
        (makeMonPod existsEnv demoCluster (demoMons ! 0) demoInfo (Size demoCluster \<le> int 3))
        (world \<lparr>world = (), calls = [NodesListCall, PollPodsCall ''rook'' ''rookcluster'']\<rparr>)
        = (Some AlreadyExists, ())"
    by (simp add: run_defs existsEnv_def)
  have r: "startPods existsEnv demoCluster demoInfo (take (Suc 0) demoMons) st0 =
            (case waitForPodToStart existsEnv demoCluster
                    (makeMonPod existsEnv demoCluster (demoMons ! 0) demoInfo (Size demoCluster \<le> int 3))
                    \<lparr>world = (),
                     calls = calls \<lparr>world = (), calls = [NodesListCall, PollPodsCall ''rook'' ''rookcluster'']\<rparr>
                       @ [PodsCreateCall (Namespace demoCluster)
                           (makeMonPod existsEnv demoCluster (demoMons ! 0) demoInfo
                              (Size demoCluster \<le> int 3))]\<rparr> of
               (Inl err, st2) \<Rightarrow>
                 ((Some (FailedStartPod
                           (PodName (makeMonPod existsEnv demoCluster (demoMons ! 0) demoInfo
                                       (Size demoCluster \<le> int 3))) err),
                   demoInfo), st2)
             | (Inr podIP, st2) \<Rightarrow>
                 ((None, demoInfo\<lparr>Monitors :=
                     (Monitors demoInfo)(MonName (demoMons ! 0)
                        \<mapsto> ToCephMon existsEnv (MonName (demoMons ! 0)) podIP)\<rparr>),
                  st2))"
    by (rule t [of existsEnv demoCluster demoInfo demoMons st0,
          THEN conjunct2, THEN conjunct2, THEN conjunct2, THEN conjunct2, THEN conjunct2,
          THEN conjunct2, THEN conjunct2, rule_format, OF p])
  have f: "fst (fst (startPods existsEnv demoCluster demoInfo (take (Suc 0) demoMons) st0)) = None"
    unfolding r by (simp add: run_defs existsEnv_def)
  show ?thesis by (intro conjI b a c d f)
qed

end
